theory Spec2Isabelle
  imports Complex_Main "HOL-Library.Word"
begin

text \<open>
  The firmware of a battery powered sensor node (application.c): a button, a
  thermometer, an accelerometer with a dice orientation classifier, a battery monitor
  and a one-shot task that ends the service mode. The event handlers and
  \<open>application_init\<close> are embedded as functions on the state of the program; the SDK
  they call is represented by what the program can observe of it.
\<close>

section \<open>Single precision floating point values\<close>

text \<open>
  The C type \<open>float\<close> of the target (STM32L0, IEEE 754 binary32). A value is a NaN, an
  infinity or a finite rational; the two zeros are one value (no comparison of the
  program tells them apart). Arithmetic rounds the exact result to the nearest
  binary32 value, ties to even; comparisons with a NaN follow IEEE 754: \<open>!=\<close> is
  true and every ordering comparison is false.
\<close>

datatype float32 = NaN | PInf | NInf | Fin rat

definition pow2 :: "int \<Rightarrow> rat" where
  "pow2 e = (if 0 \<le> e then 2 ^ nat e else 1 / 2 ^ nat (- e))"

text \<open>The number of binary digits of a positive integer.\<close>

function bit_length :: "int \<Rightarrow> int" where
  "bit_length n = (if n \<le> 0 then 0 else 1 + bit_length (n div 2))"
  by pat_completeness auto
termination
  by (relation "measure nat") auto

declare bit_length.simps [simp del]

text \<open>The binary exponent of a positive rational: \<open>2 ^ e \<le> q < 2 ^ (e + 1)\<close>.\<close>

definition ilog2 :: "rat \<Rightarrow> int" where
  "ilog2 q = (case quotient_of q of (a, b) \<Rightarrow>
     (let c = bit_length a - bit_length b
      in if pow2 c \<le> q then c else c - 1))"

definition round_even :: "rat \<Rightarrow> int" where
  "round_even x = (let n = \<lfloor>x\<rfloor>; d = x - of_int n
     in if d < 1 / 2 then n else if 1 / 2 < d then n + 1 else if even n then n else n + 1)"

text \<open>
  Rounding to binary32: 24 significant bits, least exponent \<open>-126\<close> (below it the
  spacing stays \<open>2 ^ -149\<close>, the subnormal numbers), overflow to an infinity from
  \<open>2 ^ 128\<close> on.
\<close>

definition float32_round :: "rat \<Rightarrow> float32" where
  "float32_round q = (if q = 0 then Fin 0 else
     (let e = max (ilog2 \<bar>q\<bar>) (- 126); u = pow2 (e - 23);
          r = of_int (round_even (q / u)) * u
      in if pow2 128 \<le> \<bar>r\<bar> then (if 0 < q then PInf else NInf) else Fin r))"

text \<open>The C operator \<open>-\<close> on two floats.\<close>

fun fsub :: "float32 \<Rightarrow> float32 \<Rightarrow> float32" where
  "fsub NaN b = NaN"
| "fsub a NaN = NaN"
| "fsub PInf PInf = NaN"
| "fsub NInf NInf = NaN"
| "fsub PInf b = PInf"
| "fsub NInf b = NInf"
| "fsub (Fin x) PInf = NInf"
| "fsub (Fin x) NInf = PInf"
| "fsub (Fin x) (Fin y) = float32_round (x - y)"

fun fabsf :: "float32 \<Rightarrow> float32" where
  "fabsf NaN = NaN"
| "fabsf PInf = PInf"
| "fabsf NInf = PInf"
| "fabsf (Fin x) = Fin \<bar>x\<bar>"

text \<open>The C operators \<open>>=\<close>, \<open>>\<close> and \<open>!=\<close> on two floats.\<close>

fun fge :: "float32 \<Rightarrow> float32 \<Rightarrow> bool" where
  "fge NaN b = False"
| "fge a NaN = False"
| "fge PInf b = True"
| "fge a NInf = True"
| "fge NInf b = False"
| "fge (Fin x) PInf = False"
| "fge (Fin x) (Fin y) = (y \<le> x)"

fun fgt :: "float32 \<Rightarrow> float32 \<Rightarrow> bool" where
  "fgt NaN b = False"
| "fgt a NaN = False"
| "fgt a PInf = False"
| "fgt NInf b = False"
| "fgt PInf b = True"
| "fgt (Fin x) NInf = True"
| "fgt (Fin x) (Fin y) = (y < x)"

fun fne :: "float32 \<Rightarrow> float32 \<Rightarrow> bool" where
  "fne NaN b = True"
| "fne a NaN = True"
| "fne a b = (a \<noteq> b)"

text \<open>The macro \<open>NAN\<close> of \<open>math.h\<close>.\<close>

definition NAN :: float32 where
  "NAN = NaN"

section \<open>Types of the SDK that application.c uses\<close>

text \<open>
  \<open>twr_tick_t\<close> is the SDK's tick counter, an unsigned 64 bit integer counting
  milliseconds; \<open>uint16_t\<close> is \<open>16 word\<close>; \<open>int\<close> has 32 bits on the target. The
  headers that declare \<open>twr_tick_t\<close> and the event enumerations are not among the
  sources: the enumerations below have the values the handlers compare with, and the
  other values of the SDK, which the handlers ignore.
\<close>

type_synonym twr_tick_t = "64 word"

datatype twr_button_event_t =
  TWR_BUTTON_EVENT_PRESS | TWR_BUTTON_EVENT_RELEASE | TWR_BUTTON_EVENT_CLICK
  | TWR_BUTTON_EVENT_HOLD

datatype twr_module_battery_event_t =
  TWR_MODULE_BATTERY_EVENT_LEVEL_LOW | TWR_MODULE_BATTERY_EVENT_LEVEL_CRITICAL
  | TWR_MODULE_BATTERY_EVENT_UPDATE | TWR_MODULE_BATTERY_EVENT_ERROR

datatype twr_tmp112_event_t = TWR_TMP112_EVENT_ERROR | TWR_TMP112_EVENT_UPDATE

datatype twr_lis2dh12_event_t =
  TWR_LIS2DH12_EVENT_ERROR | TWR_LIS2DH12_EVENT_UPDATE | TWR_LIS2DH12_EVENT_ALARM

record twr_lis2dh12_result_g_t =
  x_axis :: float32
  y_axis :: float32
  z_axis :: float32

text \<open>
  The faces of the dice: \<open>TWR_DICE_FACE_UNKNOWN\<close> and six faces, one for each
  direction of an axis (\<open>FACE_UP\<close> is \<open>+Z\<close>, \<open>FACE_DOWN\<close> is \<open>-Z\<close>).
\<close>

datatype twr_dice_face_t =
  TWR_DICE_FACE_UNKNOWN | FACE_POS_X | FACE_NEG_X | FACE_POS_Y | FACE_NEG_Y
  | FACE_UP | FACE_DOWN

text \<open>
  What the application writes to UART2. A message is kept by its content: which
  \<open>sprintf\<close> format produced it and the value formatted, not the characters.
\<close>

datatype message =
  Button int
  | Button_hold int
  | Button_hold_duration int
  | Battery float32
  | Temperature float32
  | Orientation twr_dice_face_t

section \<open>The SDK components the application drives\<close>

subsection \<open>Scheduler\<close>

text \<open>
  Modelled from the spec: the SDK's scheduler (twr_scheduler.c is not among the
  sources). A task has a handler and a next-due tick; the table has a fixed capacity,
  a free slot is \<open>None\<close>. The only task function of application.c is
  \<open>exit_service_mode_task\<close>.
\<close>

datatype task_fn = Exit_service_mode_task

datatype scheduler_error = CapacityExceeded

record twr_scheduler_task =
  task_fn :: task_fn
  task_due :: twr_tick_t

record twr_scheduler_t =
  pool :: "twr_scheduler_task option list"
  current_task_id :: nat

fun free_slot :: "'a option list \<Rightarrow> nat option" where
  "free_slot [] = None"
| "free_slot (None # xs) = Some 0"
| "free_slot (Some t # xs) = map_option Suc (free_slot xs)"

text \<open>
  Modelled from the spec: \<open>register(handler, param, delay) -> task_id\<close> creates a
  task due at \<open>now + delay\<close> and fails only if the task table is exhausted.
\<close>

definition twr_scheduler_register ::
  "task_fn \<Rightarrow> twr_tick_t \<Rightarrow> twr_tick_t \<Rightarrow> twr_scheduler_t
    \<Rightarrow> (scheduler_error + nat) \<times> twr_scheduler_t" where
  "twr_scheduler_register f delay now sch =
     (case free_slot (pool sch) of
        None \<Rightarrow> (Inl CapacityExceeded, sch)
      | Some i \<Rightarrow>
          (Inr i, sch\<lparr>pool := (pool sch)[i := Some \<lparr>task_fn = f, task_due = now + delay\<rparr>]\<rparr>))"

text \<open>
  Modelled from the spec: \<open>unregister(task_id)\<close> deactivates a task and is a no-op if
  the id is already inactive; it may be called from within the task's own handler.
\<close>

definition twr_scheduler_unregister :: "nat \<Rightarrow> twr_scheduler_t \<Rightarrow> twr_scheduler_t" where
  "twr_scheduler_unregister task_id sch = sch\<lparr>pool := (pool sch)[task_id := None]\<rparr>"

definition twr_scheduler_get_current_task_id :: "twr_scheduler_t \<Rightarrow> nat" where
  "twr_scheduler_get_current_task_id sch = current_task_id sch"

text \<open>
  Modelled from the spec: \<open>run_due(now)\<close> invokes the active tasks whose due tick is
  \<open>\<le> now\<close>. \<open>task_is_due\<close> is that condition for one task id.
\<close>

definition task_is_due :: "twr_tick_t \<Rightarrow> nat \<Rightarrow> twr_scheduler_t \<Rightarrow> bool" where
  "task_is_due now task_id sch =
     (task_id < length (pool sch) \<and>
      (case pool sch ! task_id of None \<Rightarrow> False | Some t \<Rightarrow> task_due t \<le> now))"

subsection \<open>Button driver\<close>

text \<open>
  Modelled from the spec: the state of the SDK's button driver (twr_button.c is not
  among the sources). The phase is one of Idle, Pressed, HeldReported; the hold timer
  is a one-shot task armed on Press (\<open>Some due\<close>) and disarmed on Release; the hold
  threshold is a parameter of the driver.
\<close>

datatype button_phase = Idle | Pressed | HeldReported

record twr_button_t =
  phase :: button_phase
  hold_timer :: "twr_tick_t option"
  hold_time :: twr_tick_t

definition twr_button_init :: "twr_tick_t \<Rightarrow> twr_button_t" where
  "twr_button_init threshold = \<lparr>phase = Idle, hold_timer = None, hold_time = threshold\<rparr>"

subsection \<open>Dice\<close>

text \<open>
  Modelled from the spec: the SDK's orientation classifier (twr_dice.c is not among
  the sources). Among the six axis directions it takes the axis with the largest
  magnitude and the face of its sign, or Unknown if no axis exceeds the minimum
  confidence magnitude (a parameter of the dice). A NaN component compares false
  everywhere, so the sample classifies as Unknown.
\<close>

record twr_dice_t =
  face :: twr_dice_face_t
  threshold :: float32

definition twr_dice_init :: "float32 \<Rightarrow> twr_dice_face_t \<Rightarrow> twr_dice_t" where
  "twr_dice_init thr start = \<lparr>face = start, threshold = thr\<rparr>"

definition classify :: "float32 \<Rightarrow> float32 \<Rightarrow> float32 \<Rightarrow> float32 \<Rightarrow> twr_dice_face_t" where
  "classify thr x y z =
     (let ax = fabsf x; ay = fabsf y; az = fabsf z in
      if fgt ax thr \<and> fge ax ay \<and> fge ax az then
        (if fgt x (Fin 0) then FACE_POS_X else FACE_NEG_X)
      else if fgt ay thr \<and> fge ay ax \<and> fge ay az then
        (if fgt y (Fin 0) then FACE_POS_Y else FACE_NEG_Y)
      else if fgt az thr \<and> fge az ax \<and> fge az ay then
        (if fgt z (Fin 0) then FACE_UP else FACE_DOWN)
      else TWR_DICE_FACE_UNKNOWN)"

definition twr_dice_feed_vectors ::
  "float32 \<Rightarrow> float32 \<Rightarrow> float32 \<Rightarrow> twr_dice_t \<Rightarrow> twr_dice_t" where
  "twr_dice_feed_vectors x y z d = d\<lparr>face := classify (threshold d) x y z\<rparr>"

definition twr_dice_get_face :: "twr_dice_t \<Rightarrow> twr_dice_face_t" where
  "twr_dice_get_face d = face d"

section \<open>application.c\<close>

subsection \<open>Constants\<close>

definition SERVICE_MODE_INTERVAL :: twr_tick_t where
  "SERVICE_MODE_INTERVAL = 15 * 60 * 1000"

definition BATTERY_UPDATE_INTERVAL :: twr_tick_t where
  "BATTERY_UPDATE_INTERVAL = 60 * 60 * 1000"

definition TEMPERATURE_PUB_INTERVAL :: twr_tick_t where
  "TEMPERATURE_PUB_INTERVAL = 15 * 60 * 1000"

text \<open>The literal \<open>0.2f\<close>: the decimal 0.2 rounded to binary32.\<close>

definition TEMPERATURE_PUB_DIFFERENCE :: float32 where
  "TEMPERATURE_PUB_DIFFERENCE = float32_round (2 / 10)"

definition TEMPERATURE_UPDATE_SERVICE_INTERVAL :: twr_tick_t where
  "TEMPERATURE_UPDATE_SERVICE_INTERVAL = 1 * 1000"

definition TEMPERATURE_UPDATE_NORMAL_INTERVAL :: twr_tick_t where
  "TEMPERATURE_UPDATE_NORMAL_INTERVAL = 10 * 1000"

definition ACCELEROMETER_UPDATE_SERVICE_INTERVAL :: twr_tick_t where
  "ACCELEROMETER_UPDATE_SERVICE_INTERVAL = 1 * 1000"

definition ACCELEROMETER_UPDATE_NORMAL_INTERVAL :: twr_tick_t where
  "ACCELEROMETER_UPDATE_NORMAL_INTERVAL = 10 * 1000"

subsection \<open>The state of the program\<close>

text \<open>
  The globals of application.c, the two function-local statics
  (\<open>last_published_temperature\<close>, \<open>last_face\<close>) and what the program can observe or
  change of the SDK: the LED (the pulses requested, in milliseconds), the update
  interval of each polled sensor, the scheduler and the messages written to the UART.
\<close>

record app_state =
  led :: "nat list"
  button :: twr_button_t
  battery_update_interval :: twr_tick_t
  tmp112_update_interval :: twr_tick_t
  lis2dh12_update_interval :: twr_tick_t
  dice :: twr_dice_t
  button_click_count :: "16 word"
  button_hold_count :: "16 word"
  tick_start_button_press :: twr_tick_t
  button_hold_event :: bool
  tick_temperature_report :: twr_tick_t
  last_published_temperature :: float32
  last_face :: twr_dice_face_t
  scheduler :: twr_scheduler_t
  uart :: "message list"

definition twr_led_pulse :: "nat \<Rightarrow> app_state \<Rightarrow> app_state" where
  "twr_led_pulse duration s = s\<lparr>led := led s @ [duration]\<rparr>"

definition twr_uart_write :: "message \<Rightarrow> app_state \<Rightarrow> app_state" where
  "twr_uart_write m s = s\<lparr>uart := uart s @ [m]\<rparr>"

text \<open>
  Modelled from the spec: the SDK's setters of a sensor's update interval (the drivers
  are not among the sources) store the interval the sensor is polled with from then on.
\<close>

definition twr_module_battery_set_update_interval :: "twr_tick_t \<Rightarrow> app_state \<Rightarrow> app_state" where
  "twr_module_battery_set_update_interval interval s = s\<lparr>battery_update_interval := interval\<rparr>"

definition twr_tmp112_set_update_interval :: "twr_tick_t \<Rightarrow> app_state \<Rightarrow> app_state" where
  "twr_tmp112_set_update_interval interval s = s\<lparr>tmp112_update_interval := interval\<rparr>"

definition twr_lis2dh12_set_update_interval :: "twr_tick_t \<Rightarrow> app_state \<Rightarrow> app_state" where
  "twr_lis2dh12_set_update_interval interval s = s\<lparr>lis2dh12_update_interval := interval\<rparr>"

subsection \<open>Formatting a message into the buffer\<close>

text \<open>
  Every message is formatted by \<open>sprintf\<close> into \<open>char buffer[32]\<close> and the buffer is
  then written to the UART. \<open>text_length\<close> is the number of characters \<open>sprintf\<close>
  produces: the fixed characters of the format, the decimal digits of a \<open>%d\<close> (with a
  minus sign for a negative number) and the digits of a \<open>%.2f\<close> (the value rounded to
  two decimals, with a minus sign for a negative value; the zero of \<open>float32\<close> is
  counted without a sign). The enumerators of \<open>twr_dice_face_t\<close> are 0 to 6, one digit.
  The text and its terminating zero must fit the 32 bytes. If they do not,
  \<open>sprintf\<close> writes past the buffer and the behaviour of the program is undefined:
  the outcome is \<open>None\<close>.
\<close>

function decimal_digits :: "int \<Rightarrow> nat" where
  "decimal_digits n = (if n < 10 then 1 else 1 + decimal_digits (n div 10))"
  by pat_completeness auto
termination
  by (relation "measure nat") auto

declare decimal_digits.simps [simp del]

definition int_width :: "int \<Rightarrow> nat" where
  "int_width d = (if d < 0 then 1 + decimal_digits (- d) else decimal_digits d)"

fun f2_width :: "float32 \<Rightarrow> nat" where
  "f2_width NaN = 3"
| "f2_width PInf = 3"
| "f2_width NInf = 4"
| "f2_width (Fin q) =
     (if q < 0 then 1 else 0) + decimal_digits (round_even (\<bar>q\<bar> * 100) div 100) + 3"

fun text_length :: "message \<Rightarrow> nat" where
  "text_length (Button n) = 8 + int_width n"
| "text_length (Button_hold n) = 13 + int_width n"
| "text_length (Button_hold_duration d) = 22 + int_width d + 2"
| "text_length (Battery v) = 9 + f2_width v + 2"
| "text_length (Temperature v) = 13 + f2_width v + 2"
| "text_length (Orientation f) = 13 + 1 + 2"

declare text_length.simps [simp del]

definition sprintf_and_write :: "message \<Rightarrow> app_state \<Rightarrow> app_state option" where
  "sprintf_and_write m s =
     (if text_length m + 1 \<le> 32 then Some (twr_uart_write m s) else None)"

subsection \<open>Event handlers\<close>

text \<open>
  A handler runs to completion on the state and returns the new state, or \<open>None\<close>
  when it overruns its buffer. Each call of \<open>twr_tick_get()\<close> is an argument: the
  handler of the button reads the tick once (\<open>now\<close>); the handler of the thermometer
  reads it for the test of the report time (\<open>now\<close>) and again, after the message has
  been formatted and written, to schedule the next report (\<open>later\<close>). The getter of a
  sensor is an argument too: \<open>Some\<close> of the value read, or \<open>None\<close> when the getter
  returns false.
\<close>

definition button_event_handler ::
  "twr_tick_t \<Rightarrow> twr_button_event_t \<Rightarrow> app_state \<Rightarrow> app_state option" where
  "button_event_handler now event s =
     (if event = TWR_BUTTON_EVENT_CLICK then
        (let s = twr_led_pulse 100 s;
             s = s\<lparr>button_click_count := button_click_count s + 1\<rparr>
         in sprintf_and_write (Button (uint (button_click_count s))) s)
      else if event = TWR_BUTTON_EVENT_HOLD then
        (let s = twr_led_pulse 250 s;
             s = s\<lparr>button_hold_count := button_hold_count s + 1\<rparr>
         in case sprintf_and_write (Button_hold (uint (button_hold_count s))) s of
              None \<Rightarrow> None
            | Some s \<Rightarrow> Some (s\<lparr>button_hold_event := True\<rparr>))
      else if event = TWR_BUTTON_EVENT_PRESS then
        (let s = s\<lparr>button_hold_event := False\<rparr>
         in Some (s\<lparr>tick_start_button_press := now\<rparr>))
      else if event = TWR_BUTTON_EVENT_RELEASE then
        (if button_hold_event s then
           (let hold_duration = sint (ucast (now - tick_start_button_press s) :: 32 word)
            in sprintf_and_write (Button_hold_duration hold_duration) s)
         else Some s)
      else Some s)"

definition battery_event_handler ::
  "twr_module_battery_event_t \<Rightarrow> float32 option \<Rightarrow> app_state \<Rightarrow> app_state option" where
  "battery_event_handler event reading s =
     (if event = TWR_MODULE_BATTERY_EVENT_UPDATE then
        (case reading of
           Some voltage \<Rightarrow> sprintf_and_write (Battery voltage) s
         | None \<Rightarrow> Some s)
      else Some s)"

definition tmp112_event_handler ::
  "twr_tick_t \<Rightarrow> twr_tick_t \<Rightarrow> twr_tmp112_event_t \<Rightarrow> float32 option \<Rightarrow> app_state
    \<Rightarrow> app_state option" where
  "tmp112_event_handler now later event reading s =
     (if event = TWR_TMP112_EVENT_UPDATE then
        (case reading of
           Some temperature \<Rightarrow>
             (let publish = False;
                  publish = (if tick_temperature_report s \<le> now then True else publish);
                  publish =
                    (if fne (last_published_temperature s) NAN then
                       (if fge (fabsf (fsub temperature (last_published_temperature s)))
                             TEMPERATURE_PUB_DIFFERENCE
                        then True else publish)
                     else publish)
              in if publish then
                   (case sprintf_and_write (Temperature temperature) s of
                      None \<Rightarrow> None
                    | Some s \<Rightarrow>
                        (let s = s\<lparr>tick_temperature_report := later + TEMPERATURE_PUB_INTERVAL\<rparr>
                         in Some (s\<lparr>last_published_temperature := temperature\<rparr>)))
                 else Some s)
         | None \<Rightarrow> Some s)
      else if event = TWR_TMP112_EVENT_ERROR then Some s
      else Some s)"

definition lis2dh12_event_handler ::
  "twr_lis2dh12_event_t \<Rightarrow> twr_lis2dh12_result_g_t option \<Rightarrow> app_state \<Rightarrow> app_state option" where
  "lis2dh12_event_handler event reading s =
     (if event = TWR_LIS2DH12_EVENT_UPDATE then
        (case reading of
           Some result \<Rightarrow>
             (let s = s\<lparr>dice := twr_dice_feed_vectors (x_axis result) (y_axis result)
                                  (z_axis result) (dice s)\<rparr>;
                  face = twr_dice_get_face (dice s)
              in if last_face s \<noteq> face then
                   (let s = s\<lparr>last_face := face\<rparr>
                    in sprintf_and_write (Orientation face) s)
                 else Some s)
         | None \<Rightarrow> Some s)
      else if event = TWR_LIS2DH12_EVENT_ERROR then Some s
      else Some s)"

definition exit_service_mode_task :: "app_state \<Rightarrow> app_state" where
  "exit_service_mode_task s =
     (let s = twr_tmp112_set_update_interval TEMPERATURE_UPDATE_NORMAL_INTERVAL s;
          s = twr_lis2dh12_set_update_interval ACCELEROMETER_UPDATE_NORMAL_INTERVAL s
      in s\<lparr>scheduler :=
             twr_scheduler_unregister (twr_scheduler_get_current_task_id (scheduler s))
               (scheduler s)\<rparr>)"

subsection \<open>Start of the program\<close>

text \<open>
  The constants of the SDK that the sources do not give: the capacity of the task
  table, the hold threshold of the button and the minimum confidence magnitude of the
  dice.
\<close>

record sdk_params =
  max_tasks :: nat
  button_hold_time :: twr_tick_t
  dice_threshold :: float32

text \<open>
  The state when \<open>application_init\<close> is entered: the initialisers of the globals and
  statics (zero where the source gives none), an empty task table, nothing written.
\<close>

definition startup :: "sdk_params \<Rightarrow> app_state" where
  "startup p =
     \<lparr>led = [],
      button = \<lparr>phase = Idle, hold_timer = None, hold_time = 0\<rparr>,
      battery_update_interval = 0,
      tmp112_update_interval = 0,
      lis2dh12_update_interval = 0,
      dice = \<lparr>face = TWR_DICE_FACE_UNKNOWN, threshold = Fin 0\<rparr>,
      button_click_count = 0,
      button_hold_count = 0,
      tick_start_button_press = 0,
      button_hold_event = False,
      tick_temperature_report = 0,
      last_published_temperature = NAN,
      last_face = TWR_DICE_FACE_UNKNOWN,
      scheduler = \<lparr>pool = replicate (max_tasks p) None, current_task_id = 0\<rparr>,
      uart = []\<rparr>"

text \<open>
  \<open>application_init\<close>, in the order of the source. The value
  \<open>twr_scheduler_register\<close> returns is dropped, as the source drops it;
  \<open>twr_uart_init\<close> writes nothing.
\<close>

definition application_init :: "sdk_params \<Rightarrow> twr_tick_t \<Rightarrow> app_state \<Rightarrow> app_state" where
  "application_init p now s =
     (let s = s\<lparr>led := []\<rparr>;
          s = s\<lparr>button := twr_button_init (button_hold_time p)\<rparr>;
          s = twr_module_battery_set_update_interval BATTERY_UPDATE_INTERVAL s;
          s = twr_tmp112_set_update_interval TEMPERATURE_UPDATE_SERVICE_INTERVAL s;
          s = twr_lis2dh12_set_update_interval ACCELEROMETER_UPDATE_SERVICE_INTERVAL s;
          s = s\<lparr>dice := twr_dice_init (dice_threshold p) TWR_DICE_FACE_UNKNOWN\<rparr>;
          s = s\<lparr>scheduler :=
                 snd (twr_scheduler_register Exit_service_mode_task SERVICE_MODE_INTERVAL now
                        (scheduler s))\<rparr>
      in twr_led_pulse 2000 s)"

subsection \<open>Events\<close>

text \<open>
  Everything that can call into application.c after \<open>application_init\<close>: a driver
  delivering an event to its handler, or the scheduler running a due task. Running a
  task sets the current task id first. An event comes with the tick \<open>now\<close> at which it
  is delivered; the event of the thermometer carries the tick its handler reads the
  second time. A sequence of events runs until a handler overruns its buffer.
\<close>

datatype event =
  Button_event twr_button_event_t
  | Battery_event twr_module_battery_event_t "float32 option"
  | Tmp112_event twr_tmp112_event_t "float32 option" twr_tick_t
  | Lis2dh12_event twr_lis2dh12_event_t "twr_lis2dh12_result_g_t option"
  | Task_due nat

definition call_task :: "task_fn \<Rightarrow> app_state \<Rightarrow> app_state" where
  "call_task f s = (case f of Exit_service_mode_task \<Rightarrow> exit_service_mode_task s)"

definition scheduler_run_task :: "twr_tick_t \<Rightarrow> nat \<Rightarrow> app_state \<Rightarrow> app_state" where
  "scheduler_run_task now task_id s =
     (if task_is_due now task_id (scheduler s) then
        (case pool (scheduler s) ! task_id of
           Some t \<Rightarrow> call_task (task_fn t) (s\<lparr>scheduler := (scheduler s)\<lparr>current_task_id := task_id\<rparr>\<rparr>)
         | None \<Rightarrow> s)
      else s)"

fun dispatch :: "twr_tick_t \<Rightarrow> event \<Rightarrow> app_state \<Rightarrow> app_state option" where
  "dispatch now (Button_event e) s = button_event_handler now e s"
| "dispatch now (Battery_event e r) s = battery_event_handler e r s"
| "dispatch now (Tmp112_event e r later) s = tmp112_event_handler now later e r s"
| "dispatch now (Lis2dh12_event e r) s = lis2dh12_event_handler e r s"
| "dispatch now (Task_due task_id) s = Some (scheduler_run_task now task_id s)"

fun run :: "(twr_tick_t \<times> event) list \<Rightarrow> app_state \<Rightarrow> app_state option" where
  "run [] s = Some s"
| "run ((now, e) # es) s =
     (case dispatch now e s of None \<Rightarrow> None | Some s' \<Rightarrow> run es s')"

subsection \<open>The button driver calling the handler\<close>

text \<open>
  Modelled from the spec: the transitions of the button state machine (twr_button.c is
  not among the sources), as far as the driver decides them; what each event does to
  the counters, the press tick and the hold flag is \<open>button_event_handler\<close> above.
  Idle, Press: arm the hold timer, deliver PRESS. Pressed, hold timer elapsed: deliver
  HOLD. Pressed, Release: disarm the timer, deliver RELEASE and CLICK. HeldReported,
  Release: deliver RELEASE. Anything else is ignored.
\<close>

datatype button_input = Press | Release | Hold_timer

definition twr_button_input ::
  "twr_tick_t \<Rightarrow> button_input \<Rightarrow> app_state \<Rightarrow> app_state option" where
  "twr_button_input now inp s =
     (let b = button s in
      if phase b = Idle \<and> inp = Press then
        button_event_handler now TWR_BUTTON_EVENT_PRESS
          (s\<lparr>button := b\<lparr>phase := Pressed, hold_timer := Some (now + hold_time b)\<rparr>\<rparr>)
      else if phase b = Pressed \<and> inp = Hold_timer then
        (case hold_timer b of
           Some due \<Rightarrow>
             if due \<le> now then
               button_event_handler now TWR_BUTTON_EVENT_HOLD
                 (s\<lparr>button := b\<lparr>phase := HeldReported, hold_timer := None\<rparr>\<rparr>)
             else Some s
         | None \<Rightarrow> Some s)
      else if phase b = Pressed \<and> inp = Release then
        (case button_event_handler now TWR_BUTTON_EVENT_RELEASE
                (s\<lparr>button := b\<lparr>phase := Idle, hold_timer := None\<rparr>\<rparr>) of
           None \<Rightarrow> None
         | Some s \<Rightarrow> button_event_handler now TWR_BUTTON_EVENT_CLICK s)
      else if phase b = HeldReported \<and> inp = Release then
        button_event_handler now TWR_BUTTON_EVENT_RELEASE
          (s\<lparr>button := b\<lparr>phase := Idle, hold_timer := None\<rparr>\<rparr>)
      else Some s)"

fun button_inputs ::
  "(twr_tick_t \<times> button_input) list \<Rightarrow> app_state \<Rightarrow> app_state option" where
  "button_inputs [] s = Some s"
| "button_inputs ((now, inp) # rest) s =
     (case twr_button_input now inp s of None \<Rightarrow> None | Some s' \<Rightarrow> button_inputs rest s')"

subsection \<open>What has been written so far\<close>

fun is_temperature :: "message \<Rightarrow> bool" where
  "is_temperature (Temperature v) = True"
| "is_temperature m = False"

definition temperature_published :: "app_state \<Rightarrow> bool" where
  "temperature_published s = (filter is_temperature (uart s) \<noteq> [])"

fun orientations :: "message list \<Rightarrow> twr_dice_face_t list" where
  "orientations [] = []"
| "orientations (Orientation f # ms) = f # orientations ms"
| "orientations (m # ms) = orientations ms"

subsection \<open>Sequences of button events and an example configuration\<close>

fun button_events :: "(twr_tick_t \<times> twr_button_event_t) list \<Rightarrow> (twr_tick_t \<times> event) list" where
  "button_events [] = []"
| "button_events ((t, e) # es) = (t, Button_event e) # button_events es"

text \<open>
  A configuration to evaluate the program on: 32 task slots, a hold threshold of 2000
  ticks, a dice threshold of 0.4; the program initialised at tick 0.
\<close>

definition example_params :: sdk_params where
  "example_params =
     \<lparr>max_tasks = 32, button_hold_time = 2000, dice_threshold = float32_round (4 / 10)\<rparr>"

definition example_start :: app_state where
  "example_start = application_init example_params 0 (startup example_params)"

subsection \<open>Invariant of the publish gate\<close>

text \<open>
  As long as no temperature has been written, the tick of the next report is still
  its initialiser 0.
\<close>

definition gate_inv :: "app_state \<Rightarrow> bool" where
  "gate_inv s = (temperature_published s \<or> tick_temperature_report s = 0)"

subsection \<open>The two polling modes\<close>

text \<open>
  Service mode: both sensors have the service interval and the task table is the one
  \<open>application_init\<close> leaves (the exit task in slot 0 if the table has a slot, due
  \<open>SERVICE_MODE_INTERVAL\<close> after the tick of the start). Normal mode: both sensors
  have the normal interval and the task table is empty.
\<close>

definition in_service_mode :: "sdk_params \<Rightarrow> twr_tick_t \<Rightarrow> app_state \<Rightarrow> bool" where
  "in_service_mode p t0 s =
     (tmp112_update_interval s = TEMPERATURE_UPDATE_SERVICE_INTERVAL
      \<and> lis2dh12_update_interval s = ACCELEROMETER_UPDATE_SERVICE_INTERVAL
      \<and> pool (scheduler s) =
          (replicate (max_tasks p) None)
            [0 := Some \<lparr>task_fn = Exit_service_mode_task, task_due = t0 + SERVICE_MODE_INTERVAL\<rparr>])"

definition in_normal_mode :: "sdk_params \<Rightarrow> app_state \<Rightarrow> bool" where
  "in_normal_mode p s =
     (tmp112_update_interval s = TEMPERATURE_UPDATE_NORMAL_INTERVAL
      \<and> lis2dh12_update_interval s = ACCELEROMETER_UPDATE_NORMAL_INTERVAL
      \<and> pool (scheduler s) = replicate (max_tasks p) None)"

subsection \<open>Orientation: sequences of samples and what is reported\<close>

text \<open>The face the dice of state \<open>s\<close> gives to a sample.\<close>

definition sample_face :: "app_state \<Rightarrow> twr_lis2dh12_result_g_t \<Rightarrow> twr_dice_face_t" where
  "sample_face s r = classify (threshold (dice s)) (x_axis r) (y_axis r) (z_axis r)"

text \<open>A sequence of update events of the accelerometer whose reads succeed.\<close>

fun samples :: "(twr_tick_t \<times> twr_lis2dh12_result_g_t) list \<Rightarrow> (twr_tick_t \<times> event) list" where
  "samples [] = []"
| "samples ((t, r) # rs) = (t, Lis2dh12_event TWR_LIS2DH12_EVENT_UPDATE (Some r)) # samples rs"

text \<open>
  The reporting rule in the words of the spec: of a sequence of classified faces, report
  each face that differs from the last reported one, and make it the last reported.
\<close>

fun report_changes :: "twr_dice_face_t \<Rightarrow> twr_dice_face_t list \<Rightarrow> twr_dice_face_t list" where
  "report_changes prev [] = []"
| "report_changes prev (f # fs) =
     (if f \<noteq> prev then f # report_changes f fs else report_changes prev fs)"

text \<open>
  As long as no orientation has been written the last face is still Unknown, and the
  first orientation written is not Unknown.
\<close>

definition orientation_inv :: "app_state \<Rightarrow> bool" where
  "orientation_inv s =
     (if orientations (uart s) = [] then last_face s = TWR_DICE_FACE_UNKNOWN
      else hd (orientations (uart s)) \<noteq> TWR_DICE_FACE_UNKNOWN)"

text \<open>The state after a sample that was read: the dice is fed, a new face is reported.\<close>

definition after_sample :: "app_state \<Rightarrow> twr_lis2dh12_result_g_t \<Rightarrow> app_state" where
  "after_sample s r =
     (if last_face s \<noteq> sample_face s r
      then s\<lparr>dice := (dice s)\<lparr>face := sample_face s r\<rparr>,
             last_face := sample_face s r,
             uart := uart s @ [Orientation (sample_face s r)]\<rparr>
      else s\<lparr>dice := (dice s)\<lparr>face := sample_face s r\<rparr>\<rparr>)"

definition g_vector :: "rat \<Rightarrow> rat \<Rightarrow> rat \<Rightarrow> twr_lis2dh12_result_g_t" where
  "g_vector x y z = \<lparr>x_axis = Fin x, y_axis = Fin y, z_axis = Fin z\<rparr>"

subsection \<open>Polls of the hold timer\<close>

text \<open>The scheduler looking at the hold timer of the button at each tick of a list.\<close>

fun hold_polls :: "twr_tick_t list \<Rightarrow> (twr_tick_t \<times> button_input) list" where
  "hold_polls [] = []"
| "hold_polls (t # ts) = (t, Hold_timer) # hold_polls ts"

section \<open>Properties\<close>

subsection \<open>Basic facts\<close>

lemmas init_defs = application_init_def startup_def twr_led_pulse_def
  twr_module_battery_set_update_interval_def twr_tmp112_set_update_interval_def
  twr_lis2dh12_set_update_interval_def twr_button_init_def twr_dice_init_def

lemma decimal_digits_le: "0 < k \<Longrightarrow> n < 10 ^ k \<Longrightarrow> decimal_digits n \<le> k"
proof (induction k arbitrary: n)
  case 0
  then show ?case by simp
next
  case (Suc k)
  show ?case
  proof (cases "n < 10")
    case True
    then show ?thesis by (simp add: decimal_digits.simps [of n])
  next
    case False
    with Suc.prems have k: "0 < k" by (cases k) auto
    from Suc.prems have "n div 10 < 10 ^ k" by simp
    with k have "decimal_digits (n div 10) \<le> k" by (rule Suc.IH)
    with False show ?thesis by (simp add: decimal_digits.simps [of n])
  qed
qed

lemma int_width_uint16: "int_width (uint (c :: 16 word)) \<le> 5"
proof -
  have "uint c < 2 ^ LENGTH(16)" by (rule uint_lt2p)
  then have "uint c < 10 ^ 5" by simp
  then have "decimal_digits (uint c) \<le> 5" by (intro decimal_digits_le) simp_all
  then show ?thesis by (simp add: int_width_def)
qed

lemma counter_text_fits:
  "sprintf_and_write (Button (uint (c :: 16 word))) s = Some (twr_uart_write (Button (uint c)) s)"
  "sprintf_and_write (Button_hold (uint c)) s = Some (twr_uart_write (Button_hold (uint c)) s)"
  using int_width_uint16 [of c] by (simp_all add: sprintf_and_write_def text_length.simps)

lemma orientation_text_fits:
  "sprintf_and_write (Orientation f) s = Some (twr_uart_write (Orientation f) s)"
  by (simp add: sprintf_and_write_def text_length.simps)

lemma sprintf_and_write_Some:
  "sprintf_and_write m s = Some s' \<Longrightarrow> s' = s\<lparr>uart := uart s @ [m]\<rparr>"
  by (auto simp: sprintf_and_write_def twr_uart_write_def split: if_splits)

lemma click_step:
  "button_event_handler now TWR_BUTTON_EVENT_CLICK s =
     Some (s\<lparr>led := led s @ [100],
             button_click_count := button_click_count s + 1,
             uart := uart s @ [Button (uint (button_click_count s + 1))]\<rparr>)"
  by (simp add: button_event_handler_def Let_def counter_text_fits twr_led_pulse_def
      twr_uart_write_def)

lemma hold_step:
  "button_event_handler now TWR_BUTTON_EVENT_HOLD s =
     Some (s\<lparr>led := led s @ [250],
             button_hold_count := button_hold_count s + 1,
             uart := uart s @ [Button_hold (uint (button_hold_count s + 1))],
             button_hold_event := True\<rparr>)"
  by (simp add: button_event_handler_def Let_def counter_text_fits twr_led_pulse_def
      twr_uart_write_def)

lemma press_event_step:
  "button_event_handler now TWR_BUTTON_EVENT_PRESS s =
     Some (s\<lparr>button_hold_event := False, tick_start_button_press := now\<rparr>)"
  by (simp add: button_event_handler_def Let_def)

lemma release_step:
  "button_event_handler now TWR_BUTTON_EVENT_RELEASE s =
     (if button_hold_event s then
        sprintf_and_write
          (Button_hold_duration (sint (ucast (now - tick_start_button_press s) :: 32 word))) s
      else Some s)"
  by (simp add: button_event_handler_def Let_def)

lemmas button_steps = click_step hold_step press_event_step release_step

lemma button_event_cases:
  assumes "button_event_handler now e s = Some s'"
  shows "button_click_count s' =
           (if e = TWR_BUTTON_EVENT_CLICK then button_click_count s + 1 else button_click_count s)
       \<and> button_hold_count s' =
           (if e = TWR_BUTTON_EVENT_HOLD then button_hold_count s + 1 else button_hold_count s)"
  using assms
  by (cases e) (auto simp: button_steps dest: sprintf_and_write_Some split: if_splits)

lemma counts_run:
  "run (button_events es) s = Some s' \<Longrightarrow>
     button_click_count s' =
       button_click_count s + of_nat (count_list (map snd es) TWR_BUTTON_EVENT_CLICK)
     \<and> button_hold_count s' =
       button_hold_count s + of_nat (count_list (map snd es) TWR_BUTTON_EVENT_HOLD)"
proof (induction es arbitrary: s)
  case Nil
  then show ?case by simp
next
  case (Cons a es)
  obtain t e where a: "a = (t, e)" by (cases a)
  from Cons.prems a obtain s1 where s1: "button_event_handler t e s = Some s1"
    and rest: "run (button_events es) s1 = Some s'"
    by (auto split: option.splits)
  from button_event_cases [OF s1] Cons.IH [OF rest] a show ?case by auto
qed

lemma count_list_replicate_same: "count_list (replicate n x) x = n"
  by (induction n) auto

lemma button_events_replicate:
  "button_events (replicate n (t, e)) = replicate n (t, Button_event e)"
  by (induction n) auto

lemma clicks_defined:
  "run (replicate n (t, Button_event TWR_BUTTON_EVENT_CLICK)) s \<noteq> None"
  by (induction n arbitrary: s) (simp_all add: click_step)

lemma holds_defined:
  "run (replicate n (t, Button_event TWR_BUTTON_EVENT_HOLD)) s \<noteq> None"
  by (induction n arbitrary: s) (simp_all add: hold_step)

lemma example_start_counts:
  "button_click_count example_start = 0" "button_hold_count example_start = 0"
  by (simp_all add: example_start_def init_defs Let_def)

subsection \<open>Counters\<close>

text \<open>
  C6, as the code has it: \<open>button_click_count++\<close> and \<open>button_hold_count++\<close> are
  increments of a \<open>uint16_t\<close>. A CLICK (HOLD) event always runs to its end and adds
  one to its counter in 16 bit arithmetic. Over every sequence of button events that
  runs to its end, each counter is its old value plus the number of CLICK (HOLD)
  events, modulo 65536: it wraps around and does not stay at 65535.
\<close>

theorem counters_wrap_modulo_65536:
  "map_option button_click_count (button_event_handler now TWR_BUTTON_EVENT_CLICK s) =
     Some (button_click_count s + 1)
   \<and> map_option button_hold_count (button_event_handler now TWR_BUTTON_EVENT_HOLD s) =
     Some (button_hold_count s + 1)
   \<and> (run (button_events es) s = Some s' \<longrightarrow>
        unat (button_click_count s') =
          (unat (button_click_count s) + count_list (map snd es) TWR_BUTTON_EVENT_CLICK) mod 65536
        \<and> unat (button_hold_count s') =
          (unat (button_hold_count s) + count_list (map snd es) TWR_BUTTON_EVENT_HOLD) mod 65536)"
  by (auto simp: click_step hold_step unat_word_ariths unat_of_nat mod_simps dest!: counts_run)

lemma run_counts_of_clicks:
  "map_option button_click_count (run (replicate n (t, Button_event TWR_BUTTON_EVENT_CLICK)) s)
     = Some (button_click_count s + of_nat n)"
proof -
  obtain s' where s': "run (replicate n (t, Button_event TWR_BUTTON_EVENT_CLICK)) s = Some s'"
    using clicks_defined [of n t s] by auto
  then have "run (button_events (replicate n (t, TWR_BUTTON_EVENT_CLICK))) s = Some s'"
    by (simp add: button_events_replicate)
  from counts_run [OF this] s' show ?thesis
    by (simp add: count_list_replicate_same)
qed

lemma run_counts_of_holds:
  "map_option button_hold_count (run (replicate n (t, Button_event TWR_BUTTON_EVENT_HOLD)) s)
     = Some (button_hold_count s + of_nat n)"
proof -
  obtain s' where s': "run (replicate n (t, Button_event TWR_BUTTON_EVENT_HOLD)) s = Some s'"
    using holds_defined [of n t s] by auto
  then have "run (button_events (replicate n (t, TWR_BUTTON_EVENT_HOLD))) s = Some s'"
    by (simp add: button_events_replicate)
  from counts_run [OF this] s' show ?thesis
    by (simp add: count_list_replicate_same)
qed

text \<open>
  C6 as stated fails: after 65535 clicks the click counter holds the maximum of its
  type, and the next click takes it to 0. The same for the hold counter.
\<close>

theorem counters_do_not_saturate:
  "map_option button_click_count
     (run (replicate 65535 (0, Button_event TWR_BUTTON_EVENT_CLICK)) example_start) = Some 65535
   \<and> map_option button_click_count
     (run (replicate 65536 (0, Button_event TWR_BUTTON_EVENT_CLICK)) example_start) = Some 0
   \<and> map_option button_hold_count
     (run (replicate 65535 (0, Button_event TWR_BUTTON_EVENT_HOLD)) example_start) = Some 65535
   \<and> map_option button_hold_count
     (run (replicate 65536 (0, Button_event TWR_BUTTON_EVENT_HOLD)) example_start) = Some 0"
  by (simp add: run_counts_of_clicks run_counts_of_holds example_start_counts)

text \<open>On the example configuration: a click, a hold and a click give the counts 2 and 1.\<close>

theorem counters_wrap_modulo_65536_witness:
  "map_option (\<lambda>s. (unat (button_click_count s), unat (button_hold_count s)))
     (run (button_events [(0, TWR_BUTTON_EVENT_CLICK), (5, TWR_BUTTON_EVENT_HOLD),
        (9, TWR_BUTTON_EVENT_CLICK)]) example_start) = Some (2, 1)"
proof -
  obtain s' where s': "run (button_events [(0, TWR_BUTTON_EVENT_CLICK), (5, TWR_BUTTON_EVENT_HOLD),
        (9, TWR_BUTTON_EVENT_CLICK)]) example_start = Some s'"
    by (simp add: click_step hold_step)
  from counters_wrap_modulo_65536 [of 0 example_start
      "[(0, TWR_BUTTON_EVENT_CLICK), (5, TWR_BUTTON_EVENT_HOLD), (9, TWR_BUTTON_EVENT_CLICK)]" s'] s'
  show ?thesis
    by (simp add: example_start_counts)
qed

subsection \<open>Failed sensor reads\<close>

text \<open>
  C7: when the getter of the temperature, the acceleration or the battery voltage
  returns false, or the driver delivers its error event, the handler returns the state
  it was given: nothing is written, no variable changes, and there is no other outcome.
\<close>

theorem sensor_read_failure_keeps_state:
  "tmp112_event_handler now later TWR_TMP112_EVENT_UPDATE None s = Some s
   \<and> tmp112_event_handler now later TWR_TMP112_EVENT_ERROR r1 s = Some s
   \<and> lis2dh12_event_handler TWR_LIS2DH12_EVENT_UPDATE None s = Some s
   \<and> lis2dh12_event_handler TWR_LIS2DH12_EVENT_ERROR r2 s = Some s
   \<and> battery_event_handler TWR_MODULE_BATTERY_EVENT_UPDATE None s = Some s
   \<and> battery_event_handler TWR_MODULE_BATTERY_EVENT_ERROR r3 s = Some s"
  by (simp add: tmp112_event_handler_def lis2dh12_event_handler_def battery_event_handler_def)

subsection \<open>The publish gate of the temperature\<close>

lemma fne_NAN: "fne x NAN"
  by (cases x) (simp_all add: NAN_def)

lemma fge_fsub_NaN: "\<not> fge (fabsf (fsub v NaN)) d"
  by (cases v) simp_all

lemma start_unpublished:
  "uart (application_init p now (startup p)) = []"
  "last_published_temperature (application_init p now (startup p)) = NAN"
  "tick_temperature_report (application_init p now (startup p)) = 0"
  "last_face (application_init p now (startup p)) = TWR_DICE_FACE_UNKNOWN"
  by (simp_all add: init_defs Let_def)

lemma tmp112_update_step:
  "tmp112_event_handler now later TWR_TMP112_EVENT_UPDATE (Some v) s =
     (if tick_temperature_report s \<le> now
         \<or> fge (fabsf (fsub v (last_published_temperature s))) TEMPERATURE_PUB_DIFFERENCE
      then (if text_length (Temperature v) < 32
            then Some (s\<lparr>uart := uart s @ [Temperature v],
                         tick_temperature_report := later + 900000,
                         last_published_temperature := v\<rparr>)
            else None)
      else Some s)"
  by (simp add: tmp112_event_handler_def fne_NAN Let_def sprintf_and_write_def
      twr_uart_write_def TEMPERATURE_PUB_INTERVAL_def)

lemma tmp112_other_step:
  "e \<noteq> TWR_TMP112_EVENT_UPDATE \<or> r = None \<Longrightarrow> tmp112_event_handler now later e r s = Some s"
  by (auto simp: tmp112_event_handler_def)

lemma gate_inv_tmp112:
  assumes "tmp112_event_handler now later e r s = Some s'" "gate_inv s"
  shows "gate_inv s'"
proof (cases "e = TWR_TMP112_EVENT_UPDATE \<and> r \<noteq> None")
  case True
  then obtain v where "e = TWR_TMP112_EVENT_UPDATE" "r = Some v" by auto
  with assms show ?thesis
    by (auto simp: tmp112_update_step gate_inv_def temperature_published_def split: if_splits)
next
  case False
  then have "tmp112_event_handler now later e r s = Some s"
    by (intro tmp112_other_step) auto
  with assms show ?thesis by simp
qed

lemmas task_defs = exit_service_mode_task_def twr_tmp112_set_update_interval_def
  twr_lis2dh12_set_update_interval_def twr_scheduler_unregister_def
  twr_scheduler_get_current_task_id_def

lemma run_task_frame:
  "uart (scheduler_run_task now i s) = uart s"
  "tick_temperature_report (scheduler_run_task now i s) = tick_temperature_report s"
  "last_face (scheduler_run_task now i s) = last_face s"
  by (simp_all add: scheduler_run_task_def call_task_def task_defs Let_def
      split: option.split task_fn.split)

lemma gate_inv_dispatch:
  assumes "dispatch now e s = Some s'" "gate_inv s"
  shows "gate_inv s'"
proof (cases e)
  case (Tmp112_event e r later)
  with assms show ?thesis by (auto intro: gate_inv_tmp112)
next
  case (Button_event b)
  with assms show ?thesis
    by (cases b)
      (auto simp: gate_inv_def temperature_published_def button_steps
        dest!: sprintf_and_write_Some split: if_splits)
next
  case (Battery_event b r)
  with assms show ?thesis
    by (auto simp: gate_inv_def temperature_published_def battery_event_handler_def
        dest!: sprintf_and_write_Some split: option.splits if_splits)
next
  case (Lis2dh12_event b r)
  with assms show ?thesis
    by (auto simp: gate_inv_def temperature_published_def lis2dh12_event_handler_def Let_def
        dest!: sprintf_and_write_Some split: option.splits if_splits)
next
  case (Task_due i)
  with assms show ?thesis
    by (auto simp: gate_inv_def temperature_published_def run_task_frame)
qed

lemma gate_inv_run: "run evs s = Some s' \<Longrightarrow> gate_inv s \<Longrightarrow> gate_inv s'"
proof (induction evs arbitrary: s)
  case Nil
  then show ?case by simp
next
  case (Cons a evs)
  obtain t e where a: "a = (t, e)" by (cases a)
  from Cons.prems(1) a obtain s1 where s1: "dispatch t e s = Some s1"
    and rest: "run evs s1 = Some s'"
    by (auto split: option.splits)
  from s1 Cons.prems(2) have "gate_inv s1" by (rule gate_inv_dispatch)
  with rest show ?case by (rule Cons.IH)
qed

lemma gate_inv_start: "gate_inv (application_init p now (startup p))"
  by (simp add: gate_inv_def start_unpublished)

text \<open>
  C1, as the code has it: in every state \<open>s\<close> the program reaches from
  \<open>application_init\<close>, for a temperature sample \<open>v\<close> whose text fits the buffer, with
  \<open>t\<close> the tick read for the test and \<open>t'\<close> the tick read again after the message has
  been written: the sample is written exactly when no temperature has been written
  before, or \<open>t\<close> has reached the tick of the next report, or one has been written and
  \<open>fabsf(v - last_published_temperature) >= 0.2f\<close>, computed in single precision. When
  it is written, the value is remembered and the next report is due at \<open>t' + 900000\<close>;
  when it is not, the state is unchanged. So the first sample is always written, and a
  sample whose difference reaches the threshold is written whatever the tick.
\<close>

theorem publish_gate_decision:
  assumes "run evs (application_init p t0 (startup p)) = Some s"
    and "text_length (Temperature v) < 32"
  shows "tmp112_event_handler t t' TWR_TMP112_EVENT_UPDATE (Some v) s =
     Some (if \<not> temperature_published s
              \<or> tick_temperature_report s \<le> t
              \<or> (temperature_published s
                  \<and> fge (fabsf (fsub v (last_published_temperature s)))
                        TEMPERATURE_PUB_DIFFERENCE)
           then s\<lparr>uart := uart s @ [Temperature v],
                   tick_temperature_report := t' + 900000,
                   last_published_temperature := v\<rparr>
           else s)"
proof -
  have "gate_inv s"
    using assms(1) gate_inv_start by (rule gate_inv_run)
  then show ?thesis
    using assms(2) unfolding gate_inv_def tmp112_update_step by auto
qed

lemma pub_difference_value: "TEMPERATURE_PUB_DIFFERENCE = Fin (13421773 / 67108864)"
  by code_simp

lemma round_401_20: "float32_round (401 / 20) = Fin (5255987 / 262144)"
  by code_simp

lemma round_small: "float32_round (13107 / 262144) = Fin (13107 / 262144)"
  by code_simp

lemma round_quarter: "float32_round (1 / 4) = Fin (1 / 4)"
  by code_simp

lemma round_near_threshold:
  "float32_round (53687091 / 268435456) = Fin (13421773 / 67108864)"
  by code_simp

lemmas example_deltas = round_401_20 round_small round_quarter round_near_threshold

lemma example_text_20: "text_length (Temperature (Fin 20)) = 20"
  by code_simp

lemma example_text_2005: "text_length (Temperature (Fin (5255987 / 262144))) = 20"
  by code_simp

lemma example_text_2025: "text_length (Temperature (Fin (81 / 4))) = 20"
  by code_simp

lemma example_text_tiny: "text_length (Temperature (Fin (- (3 / 268435456)))) = 20"
  by code_simp

lemma example_text_near: "text_length (Temperature (Fin (3355443 / 16777216))) = 19"
  by code_simp

lemma example_text_max:
  "text_length (Temperature (Fin 340282346638528859811704183484516925440)) = 57"
  by code_simp

lemmas example_texts = example_text_20 example_text_2005 example_text_2025 example_text_tiny
  example_text_near example_text_max

text \<open>
  The scenario of the spec on the example configuration: a first sample of 20.0 at
  tick 1000 is written (the clock reads 1002 afterwards, so the next report is due at
  901002); 20.05 at tick 1010 (difference 0.05) is not; 20.25 at tick 1030 (difference
  0.25) is written, and the next report is then due at tick 901030.
\<close>

theorem publish_gate_decision_witness:
  "run [(1000, Tmp112_event TWR_TMP112_EVENT_UPDATE (Some (Fin 20)) 1002)] example_start
     = Some (example_start\<lparr>uart := [Temperature (Fin 20)], tick_temperature_report := 901002,
          last_published_temperature := Fin 20\<rparr>)
   \<and> run [(1000, Tmp112_event TWR_TMP112_EVENT_UPDATE (Some (Fin 20)) 1002),
           (1010, Tmp112_event TWR_TMP112_EVENT_UPDATE (Some (float32_round (401 / 20))) 1011)]
        example_start
     = Some (example_start\<lparr>uart := [Temperature (Fin 20)], tick_temperature_report := 901002,
          last_published_temperature := Fin 20\<rparr>)
   \<and> run [(1000, Tmp112_event TWR_TMP112_EVENT_UPDATE (Some (Fin 20)) 1002),
           (1010, Tmp112_event TWR_TMP112_EVENT_UPDATE (Some (float32_round (401 / 20))) 1011),
           (1030, Tmp112_event TWR_TMP112_EVENT_UPDATE (Some (Fin (81 / 4))) 1030)]
        example_start
     = Some (example_start\<lparr>uart := [Temperature (Fin 20), Temperature (Fin (81 / 4))],
          tick_temperature_report := 901030, last_published_temperature := Fin (81 / 4)\<rparr>)"
proof -
  let ?v2 = "Fin (5255987 / 262144)"
  let ?s1 = "example_start\<lparr>uart := [Temperature (Fin 20)], tick_temperature_report := 901002,
      last_published_temperature := Fin 20\<rparr>"
  let ?s3 = "example_start\<lparr>uart := [Temperature (Fin 20), Temperature (Fin (81 / 4))],
      tick_temperature_report := 901030, last_published_temperature := Fin (81 / 4)\<rparr>"
  have start: "run [] (application_init example_params 0 (startup example_params))
      = Some example_start"
    by (simp add: example_start_def)
  have unpublished: "\<not> temperature_published example_start" "uart example_start = []"
    by (simp_all add: temperature_published_def example_start_def start_unpublished)
  have fits: "text_length (Temperature (Fin 20)) < 32"
    "text_length (Temperature ?v2) < 32"
    "text_length (Temperature (Fin (81 / 4))) < 32"
    by (simp_all add: example_texts)
  have h1: "tmp112_event_handler 1000 1002 TWR_TMP112_EVENT_UPDATE (Some (Fin 20)) example_start
      = Some ?s1"
    using publish_gate_decision [OF start fits(1), of 1000 1002] unpublished
    by simp
  then have r1: "run [(1000, Tmp112_event TWR_TMP112_EVENT_UPDATE (Some (Fin 20)) 1002)]
      (application_init example_params 0 (startup example_params)) = Some ?s1"
    by (simp add: example_start_def)
  have published: "temperature_published ?s1"
    by (simp add: temperature_published_def)
  have h2: "tmp112_event_handler 1010 1011 TWR_TMP112_EVENT_UPDATE (Some ?v2) ?s1 = Some ?s1"
    using publish_gate_decision [OF r1 fits(2), of 1010 1011] published
    by (simp add: example_deltas pub_difference_value)
  with h1 have r2: "run [(1000, Tmp112_event TWR_TMP112_EVENT_UPDATE (Some (Fin 20)) 1002),
      (1010, Tmp112_event TWR_TMP112_EVENT_UPDATE (Some ?v2) 1011)]
      (application_init example_params 0 (startup example_params)) = Some ?s1"
    by (simp add: example_start_def)
  have h3: "tmp112_event_handler 1030 1030 TWR_TMP112_EVENT_UPDATE (Some (Fin (81 / 4))) ?s1
      = Some ?s3"
    using publish_gate_decision [OF r2 fits(3), of 1030 1030] published
    by (simp add: example_deltas pub_difference_value)
  show ?thesis
    by (simp add: h1 h2 h3 round_401_20)
qed

text \<open>
  C1 as stated fails in three ways. A sample tested at tick 1000, with the clock at
  1002 when the next report is scheduled, sets the next report to 901002, not to
  1000 + 900000. After a sample of \<open>-3 / 2 ^ 28\<close> written at tick 1000, the sample
  \<open>3355443 / 2 ^ 24\<close> at tick 1010 is written although the difference of the two
  values is below 0.2: in single precision it rounds to \<open>0.2f\<close>. And the greatest
  finite float as a first sample is not written: its text has 57 characters and
  overruns the buffer.
\<close>

theorem publish_gate_claim_fails:
  "map_option tick_temperature_report
     (tmp112_event_handler 1000 1002 TWR_TMP112_EVENT_UPDATE (Some (Fin 20)) example_start)
     = Some 901002
   \<and> (901002 :: twr_tick_t) \<noteq> 1000 + 900000
   \<and> \<bar>3355443 / 16777216 - (- 3 / 268435456)\<bar> < (2 / 10 :: rat)
   \<and> (1010 :: twr_tick_t) < 901000
   \<and> map_option uart
       (run [(1000, Tmp112_event TWR_TMP112_EVENT_UPDATE (Some (Fin (- 3 / 268435456))) 1000),
             (1010, Tmp112_event TWR_TMP112_EVENT_UPDATE (Some (Fin (3355443 / 16777216))) 1010)]
          example_start)
     = Some [Temperature (Fin (- 3 / 268435456)), Temperature (Fin (3355443 / 16777216))]
   \<and> tmp112_event_handler 1000 1000 TWR_TMP112_EVENT_UPDATE
       (Some (Fin 340282346638528859811704183484516925440)) example_start = None"
proof -
  have start: "tick_temperature_report example_start = 0" "uart example_start = []"
    "last_published_temperature example_start = NaN"
    by (simp_all add: example_start_def start_unpublished NAN_def)
  show ?thesis
    by (simp add: tmp112_update_step start example_texts example_deltas pub_difference_value)
qed

text \<open>
  C2: the guard \<open>last_published_temperature != NAN\<close> is true in every state, also in
  the state \<open>application_init\<close> leaves, where nothing has been written and the variable
  still is its initialiser \<open>NAN\<close>; it does not tell whether a temperature was ever
  published. On the first sample the comparison under the guard is evaluated, and is
  false for every value \<open>v\<close>, because \<open>v - NAN\<close> is a NaN.
\<close>

theorem publish_guard_always_true:
  "fne (last_published_temperature s) NAN
   \<and> \<not> temperature_published (application_init p now (startup p))
   \<and> fne (last_published_temperature (application_init p now (startup p))) NAN
   \<and> \<not> fge (fabsf (fsub v (last_published_temperature (application_init p now (startup p)))))
          TEMPERATURE_PUB_DIFFERENCE"
  by (simp add: fne_NAN start_unpublished temperature_published_def)
    (simp add: NAN_def fge_fsub_NaN)

text \<open>
  C10: \<open>exit_service_mode_task\<close> sets the update intervals of the thermometer and of
  the accelerometer and removes the current task from the task table; the battery
  update interval, the LED, the button, the dice, the counters, the press tick, the
  hold flag, the publish gate, the last face and the UART output are as before. The
  same holds for the scheduler running any task id at any tick.
\<close>

theorem exit_service_mode_frame:
  "(let s' = exit_service_mode_task s in
     led s' = led s \<and> button s' = button s
     \<and> battery_update_interval s' = battery_update_interval s
     \<and> dice s' = dice s
     \<and> button_click_count s' = button_click_count s
     \<and> button_hold_count s' = button_hold_count s
     \<and> tick_start_button_press s' = tick_start_button_press s
     \<and> button_hold_event s' = button_hold_event s
     \<and> tick_temperature_report s' = tick_temperature_report s
     \<and> last_published_temperature s' = last_published_temperature s
     \<and> last_face s' = last_face s
     \<and> uart s' = uart s
     \<and> tmp112_update_interval s' = 10000
     \<and> lis2dh12_update_interval s' = 10000
     \<and> scheduler s' =
         (scheduler s)\<lparr>pool := (pool (scheduler s))[current_task_id (scheduler s) := None]\<rparr>)
   \<and> (let s' = scheduler_run_task now task_id s in
     dispatch now (Task_due task_id) s = Some s'
     \<and> led s' = led s \<and> button s' = button s
     \<and> battery_update_interval s' = battery_update_interval s
     \<and> dice s' = dice s
     \<and> button_click_count s' = button_click_count s
     \<and> button_hold_count s' = button_hold_count s
     \<and> tick_start_button_press s' = tick_start_button_press s
     \<and> button_hold_event s' = button_hold_event s
     \<and> tick_temperature_report s' = tick_temperature_report s
     \<and> last_published_temperature s' = last_published_temperature s
     \<and> last_face s' = last_face s
     \<and> uart s' = uart s)"
  by (simp add: Let_def task_defs scheduler_run_task_def call_task_def
      TEMPERATURE_UPDATE_NORMAL_INTERVAL_def ACCELEROMETER_UPDATE_NORMAL_INTERVAL_def
      split: option.split task_fn.split)

subsection \<open>The service window\<close>

lemma free_slot_replicate: "free_slot (replicate n None) = (if n = 0 then None else Some 0)"
  by (cases n) simp_all

lemma start_in_service_mode: "in_service_mode p t0 (application_init p t0 (startup p))"
  by (simp add: in_service_mode_def init_defs Let_def twr_scheduler_register_def
      free_slot_replicate)

lemma sprintf_keeps_poll_state:
  "sprintf_and_write m s = Some s' \<Longrightarrow>
     tmp112_update_interval s' = tmp112_update_interval s
     \<and> lis2dh12_update_interval s' = lis2dh12_update_interval s
     \<and> scheduler s' = scheduler s"
  by (auto dest!: sprintf_and_write_Some)

lemma other_events_keep_poll_state:
  assumes "dispatch now e s = Some s'" "\<And>i. e \<noteq> Task_due i"
  shows "tmp112_update_interval s' = tmp112_update_interval s
    \<and> lis2dh12_update_interval s' = lis2dh12_update_interval s
    \<and> scheduler s' = scheduler s"
proof (cases e)
  case (Button_event b)
  with assms(1) show ?thesis
    by (cases b) (auto simp: button_steps dest!: sprintf_and_write_Some split: if_splits)
next
  case (Battery_event b r)
  with assms(1) show ?thesis
    by (auto simp: battery_event_handler_def dest!: sprintf_and_write_Some
        split: option.splits if_splits)
next
  case (Tmp112_event b r later)
  with assms(1) show ?thesis
    by (auto simp: tmp112_event_handler_def Let_def dest!: sprintf_and_write_Some
        split: option.splits if_splits)
next
  case (Lis2dh12_event b r)
  with assms(1) show ?thesis
    by (auto simp: lis2dh12_event_handler_def Let_def twr_dice_feed_vectors_def
        dest!: sprintf_and_write_Some split: option.splits if_splits)
next
  case (Task_due i)
  with assms(2) [of i] show ?thesis by simp
qed

lemma normal_mode_not_due: "in_normal_mode p s \<Longrightarrow> \<not> task_is_due t i (scheduler s)"
  by (auto simp: in_normal_mode_def task_is_due_def)

lemma service_mode_due:
  "in_service_mode p t0 s \<Longrightarrow>
     task_is_due t i (scheduler s) = (i = 0 \<and> 0 < max_tasks p \<and> t0 + SERVICE_MODE_INTERVAL \<le> t)"
  by (cases i) (auto simp: in_service_mode_def task_is_due_def nth_list_update)

lemma replicate_update_same: "(replicate n x)[i := x] = replicate n x"
  by (induction n arbitrary: i) (auto split: nat.split)

lemma task_fires_to_normal:
  assumes "in_service_mode p t0 s" "task_is_due t i (scheduler s)"
  shows "in_normal_mode p (scheduler_run_task t i s)"
proof -
  from assms have i: "i = 0" "0 < max_tasks p"
    by (simp_all add: service_mode_due)
  with assms show ?thesis
    by (simp add: in_service_mode_def in_normal_mode_def scheduler_run_task_def call_task_def
        task_defs Let_def replicate_update_same
        TEMPERATURE_UPDATE_NORMAL_INTERVAL_def ACCELEROMETER_UPDATE_NORMAL_INTERVAL_def)
qed

lemma normal_mode_dispatch:
  assumes "dispatch now e s = Some s'" "in_normal_mode p s"
  shows "in_normal_mode p s'"
proof (cases "\<exists>i. e = Task_due i")
  case True
  with assms show ?thesis
    by (auto simp: scheduler_run_task_def normal_mode_not_due)
next
  case False
  then have "\<And>i. e \<noteq> Task_due i" by simp
  from other_events_keep_poll_state [OF assms(1) this] assms(2)
  show ?thesis
    by (simp add: in_normal_mode_def)
qed

lemma normal_mode_run: "run evs s = Some s' \<Longrightarrow> in_normal_mode p s \<Longrightarrow> in_normal_mode p s'"
proof (induction evs arbitrary: s)
  case Nil
  then show ?case by simp
next
  case (Cons a evs)
  obtain t e where a: "a = (t, e)" by (cases a)
  from Cons.prems(1) a obtain s1 where s1: "dispatch t e s = Some s1"
    and rest: "run evs s1 = Some s'"
    by (auto split: option.splits)
  from s1 Cons.prems(2) have "in_normal_mode p s1" by (rule normal_mode_dispatch)
  with rest show ?case by (rule Cons.IH)
qed

lemma either_mode_dispatch:
  assumes "dispatch now e s = Some s'" "in_service_mode p t0 s \<or> in_normal_mode p s"
  shows "in_service_mode p t0 s' \<or> in_normal_mode p s'"
proof (cases "in_normal_mode p s")
  case True
  with assms(1) show ?thesis by (auto intro: normal_mode_dispatch)
next
  case False
  with assms have svc: "in_service_mode p t0 s" by simp
  show ?thesis
  proof (cases "\<exists>i. e = Task_due i")
    case True
    then obtain i where e: "e = Task_due i" by blast
    with assms(1) have s': "s' = scheduler_run_task now i s" by simp
    show ?thesis
    proof (cases "task_is_due now i (scheduler s)")
      case True
      with svc have "in_normal_mode p (scheduler_run_task now i s)"
        by (rule task_fires_to_normal)
      with s' show ?thesis by blast
    next
      case False
      with svc s' show ?thesis by (simp add: scheduler_run_task_def)
    qed
  next
    case False
    then have "\<And>i. e \<noteq> Task_due i" by simp
    from other_events_keep_poll_state [OF assms(1) this] svc
    show ?thesis by (simp add: in_service_mode_def)
  qed
qed

lemma either_mode_run:
  "run evs s = Some s' \<Longrightarrow> in_service_mode p t0 s \<or> in_normal_mode p s \<Longrightarrow>
   in_service_mode p t0 s' \<or> in_normal_mode p s'"
proof (induction evs arbitrary: s)
  case Nil
  then show ?case by simp
next
  case (Cons a evs)
  obtain now e where a: "a = (now, e)" by (cases a)
  from Cons.prems(1) a obtain s1 where s1: "dispatch now e s = Some s1"
    and rest: "run evs s1 = Some s'"
    by (auto split: option.splits)
  from s1 Cons.prems(2) have "in_service_mode p t0 s1 \<or> in_normal_mode p s1"
    by (rule either_mode_dispatch)
  with rest show ?case by (rule Cons.IH)
qed

text \<open>
  C3: after \<open>application_init\<close> both sensors have the 1000 tick interval, and the exit
  task is due 900000 ticks after the start (if the task table has a slot for it).
  Whenever a task is due in a state reached by any sequence of events, the tick is at
  least 900000 after the start and both intervals are still 1000; running the task
  sets both to 10000, and from then on, after any further events, both stay 10000, no
  task is due at any tick and running the scheduler changes nothing: the task ran
  once.
\<close>

theorem service_window_one_shot:
  "tmp112_update_interval (application_init p t0 (startup p)) = 1000
   \<and> lis2dh12_update_interval (application_init p t0 (startup p)) = 1000
   \<and> (0 < max_tasks p \<longrightarrow>
        task_is_due (t0 + 900000) 0 (scheduler (application_init p t0 (startup p))))
   \<and> (run evs (application_init p t0 (startup p)) = Some s \<and> task_is_due t i (scheduler s) \<longrightarrow>
        t0 + 900000 \<le> t
        \<and> tmp112_update_interval s = 1000
        \<and> lis2dh12_update_interval s = 1000
        \<and> dispatch t (Task_due i) s = Some (scheduler_run_task t i s)
        \<and> tmp112_update_interval (scheduler_run_task t i s) = 10000
        \<and> lis2dh12_update_interval (scheduler_run_task t i s) = 10000
        \<and> (run evs' (scheduler_run_task t i s) = Some s' \<longrightarrow>
             tmp112_update_interval s' = 10000
             \<and> lis2dh12_update_interval s' = 10000
             \<and> \<not> task_is_due t' i' (scheduler s')
             \<and> dispatch t' (Task_due i') s' = Some s'))"
proof -
  let ?s0 = "application_init p t0 (startup p)"
  have start: "in_service_mode p t0 ?s0" by (rule start_in_service_mode)
  have c1: "tmp112_update_interval ?s0 = 1000 \<and> lis2dh12_update_interval ?s0 = 1000"
    using start
    by (simp add: in_service_mode_def TEMPERATURE_UPDATE_SERVICE_INTERVAL_def
        ACCELEROMETER_UPDATE_SERVICE_INTERVAL_def)
  have c2: "0 < max_tasks p \<longrightarrow> task_is_due (t0 + 900000) 0 (scheduler ?s0)"
    using start by (simp add: service_mode_due SERVICE_MODE_INTERVAL_def)
  have c3: "t0 + 900000 \<le> t
        \<and> tmp112_update_interval s = 1000
        \<and> lis2dh12_update_interval s = 1000
        \<and> dispatch t (Task_due i) s = Some (scheduler_run_task t i s)
        \<and> tmp112_update_interval (scheduler_run_task t i s) = 10000
        \<and> lis2dh12_update_interval (scheduler_run_task t i s) = 10000
        \<and> (run evs' (scheduler_run_task t i s) = Some s' \<longrightarrow>
             tmp112_update_interval s' = 10000
             \<and> lis2dh12_update_interval s' = 10000
             \<and> \<not> task_is_due t' i' (scheduler s')
             \<and> dispatch t' (Task_due i') s' = Some s')"
    if reach: "run evs ?s0 = Some s" and due: "task_is_due t i (scheduler s)"
  proof -
    from either_mode_run [OF reach] start
    have "in_service_mode p t0 s \<or> in_normal_mode p s" by simp
    with due have svc: "in_service_mode p t0 s"
      by (auto simp: normal_mode_not_due)
    from svc due have t: "t0 + 900000 \<le> t"
      by (simp add: service_mode_due SERVICE_MODE_INTERVAL_def)
    from svc due have fired: "in_normal_mode p (scheduler_run_task t i s)"
      by (rule task_fires_to_normal)
    have later: "tmp112_update_interval s' = 10000
             \<and> lis2dh12_update_interval s' = 10000
             \<and> \<not> task_is_due t' i' (scheduler s')
             \<and> dispatch t' (Task_due i') s' = Some s'"
      if "run evs' (scheduler_run_task t i s) = Some s'"
    proof -
      from that fired have n: "in_normal_mode p s'" by (rule normal_mode_run)
      then have "\<not> task_is_due t' i' (scheduler s')" by (rule normal_mode_not_due)
      with n show ?thesis
        by (simp add: in_normal_mode_def scheduler_run_task_def
            TEMPERATURE_UPDATE_NORMAL_INTERVAL_def ACCELEROMETER_UPDATE_NORMAL_INTERVAL_def)
    qed
    show ?thesis
      using t svc fired later
      by (simp add: in_service_mode_def in_normal_mode_def
          TEMPERATURE_UPDATE_SERVICE_INTERVAL_def ACCELEROMETER_UPDATE_SERVICE_INTERVAL_def
          TEMPERATURE_UPDATE_NORMAL_INTERVAL_def ACCELEROMETER_UPDATE_NORMAL_INTERVAL_def)
  qed
  show ?thesis using c1 c2 c3 by blast
qed

text \<open>
  On the example configuration: the task is due at tick 900000, running it sets both
  intervals to 10000, it is not due afterwards, and later events leave the interval.
\<close>

theorem service_window_one_shot_witness:
  "0 < max_tasks example_params
   \<and> task_is_due 900000 0 (scheduler example_start)
   \<and> tmp112_update_interval example_start = 1000
   \<and> dispatch 900000 (Task_due 0) example_start
       = Some (scheduler_run_task 900000 0 example_start)
   \<and> tmp112_update_interval (scheduler_run_task 900000 0 example_start) = 10000
   \<and> lis2dh12_update_interval (scheduler_run_task 900000 0 example_start) = 10000
   \<and> \<not> task_is_due 900001 0 (scheduler (scheduler_run_task 900000 0 example_start))
   \<and> map_option lis2dh12_update_interval
        (run [(900500, Lis2dh12_event TWR_LIS2DH12_EVENT_UPDATE None), (900700, Task_due 0)]
          (scheduler_run_task 900000 0 example_start)) = Some 10000"
proof -
  let ?s1 = "scheduler_run_task 900000 0 example_start"
  have cap: "0 < max_tasks example_params"
    by (simp add: example_params_def)
  have start: "run [] (application_init example_params 0 (startup example_params))
      = Some example_start"
    by (simp add: example_start_def)
  note init = service_window_one_shot [of example_params 0 "[]" example_start 900000 0,
      folded example_start_def]
  from init cap have due: "task_is_due 900000 0 (scheduler example_start)"
    by simp
  have r0: "run [] ?s1 = Some ?s1" by simp
  have r1: "run [(900500, Lis2dh12_event TWR_LIS2DH12_EVENT_UPDATE None), (900700, Task_due 0)]
      ?s1 = Some (scheduler_run_task 900700 0 ?s1)"
    by (simp add: lis2dh12_event_handler_def)
  from service_window_one_shot [of example_params 0 "[]" example_start 900000 0 "[]" ?s1
      900001 0] start due
  have a: "tmp112_update_interval ?s1 = 10000 \<and> lis2dh12_update_interval ?s1 = 10000
      \<and> \<not> task_is_due 900001 0 (scheduler ?s1)
      \<and> tmp112_update_interval example_start = 1000
      \<and> dispatch 900000 (Task_due 0) example_start = Some ?s1"
    by simp
  from service_window_one_shot [of example_params 0 "[]" example_start 900000 0
      "[(900500, Lis2dh12_event TWR_LIS2DH12_EVENT_UPDATE None), (900700, Task_due 0)]"
      "scheduler_run_task 900700 0 ?s1" 900001 0] start due r1
  have b: "lis2dh12_update_interval (scheduler_run_task 900700 0 ?s1) = 10000"
    by simp
  from a b cap due r1 show ?thesis
    by (simp only: option.map) simp
qed

subsection \<open>Orientation\<close>

lemma lis2dh12_update_step:
  "lis2dh12_event_handler TWR_LIS2DH12_EVENT_UPDATE (Some r) s =
     Some (if last_face s \<noteq> sample_face s r
           then s\<lparr>dice := (dice s)\<lparr>face := sample_face s r\<rparr>,
                  last_face := sample_face s r,
                  uart := uart s @ [Orientation (sample_face s r)]\<rparr>
           else s\<lparr>dice := (dice s)\<lparr>face := sample_face s r\<rparr>\<rparr>)"
  by (simp add: lis2dh12_event_handler_def Let_def twr_dice_feed_vectors_def
      twr_dice_get_face_def orientation_text_fits twr_uart_write_def sample_face_def)

lemma after_sample_twice: "after_sample (after_sample s r) r = after_sample s r"
  by (simp add: after_sample_def sample_face_def)

lemma repeated_sample_run:
  "run (replicate n (t, Lis2dh12_event TWR_LIS2DH12_EVENT_UPDATE (Some r))) (after_sample s r)
     = Some (after_sample s r)"
  by (induction n)
    (simp_all add: lis2dh12_update_step after_sample_def [symmetric] after_sample_twice)

lemma samples_run:
  "map_option uart (run (samples rs) s) =
     Some (uart s @ map Orientation
       (report_changes (last_face s)
          (map (\<lambda>(t, r). classify (threshold (dice s)) (x_axis r) (y_axis r) (z_axis r)) rs)))"
proof (induction rs arbitrary: s)
  case Nil
  then show ?case by simp
next
  case (Cons a rs)
  obtain t r where a: "a = (t, r)" by (cases a)
  show ?case
    unfolding a
    by (simp add: Cons.IH lis2dh12_update_step sample_face_def)
qed

text \<open>
  C8: on a sample that was read, with \<open>f\<close> the face the dice gives it, an orientation
  message (with \<open>f\<close>) is written exactly when \<open>f\<close> differs from \<open>last_face\<close>, and
  \<open>last_face\<close> is \<open>f\<close> afterwards; the same sample again, any number of times, changes
  nothing more. Over a sequence of samples the messages written are the faces that
  differ from the last reported one. The handler never overruns its buffer.
\<close>

theorem orientation_reported_on_change:
  "(let f = sample_face s r;
        s' = (if f \<noteq> last_face s
              then s\<lparr>dice := (dice s)\<lparr>face := f\<rparr>, last_face := f,
                     uart := uart s @ [Orientation f]\<rparr>
              else s\<lparr>dice := (dice s)\<lparr>face := f\<rparr>\<rparr>)
    in lis2dh12_event_handler TWR_LIS2DH12_EVENT_UPDATE (Some r) s = Some s'
       \<and> uart s' = (if f \<noteq> last_face s then uart s @ [Orientation f] else uart s)
       \<and> last_face s' = f
       \<and> run (replicate n (t, Lis2dh12_event TWR_LIS2DH12_EVENT_UPDATE (Some r))) s' = Some s')
   \<and> map_option uart (run (samples rs) s) =
       Some (uart s @ map Orientation
         (report_changes (last_face s)
            (map (\<lambda>(t, r). classify (threshold (dice s)) (x_axis r) (y_axis r) (z_axis r)) rs)))"
proof -
  have same: "(if sample_face s r \<noteq> last_face s
              then s\<lparr>dice := (dice s)\<lparr>face := sample_face s r\<rparr>, last_face := sample_face s r,
                     uart := uart s @ [Orientation (sample_face s r)]\<rparr>
              else s\<lparr>dice := (dice s)\<lparr>face := sample_face s r\<rparr>\<rparr>) = after_sample s r"
    by (simp add: after_sample_def)
  show ?thesis
    unfolding Let_def same samples_run repeated_sample_run
    by (auto simp: lis2dh12_update_step after_sample_def)
qed

lemma example_threshold: "threshold (dice example_start) = Fin (13421773 / 33554432)"
proof -
  have "float32_round (4 / 10) = Fin (13421773 / 33554432)" by code_simp
  then show ?thesis
    by (simp add: example_start_def example_params_def init_defs Let_def)
qed

lemma example_faces:
  "classify (Fin (13421773 / 33554432)) (Fin 0) (Fin 0) (Fin 1) = FACE_UP"
  "classify (Fin (13421773 / 33554432)) (Fin 0) (Fin 0) (Fin (- 1)) = FACE_DOWN"
  "classify (Fin (13421773 / 33554432)) (Fin 0) (Fin 0) (Fin 0) = TWR_DICE_FACE_UNKNOWN"
  by (simp_all add: classify_def)

lemma example_start_orientation:
  "last_face example_start = TWR_DICE_FACE_UNKNOWN" "uart example_start = []"
  by (simp_all add: example_start_def start_unpublished)

text \<open>
  On the example configuration: +1g on Z twice, then -1g on Z, then the zero vector
  twice. Up, Down and Unknown are written once each.
\<close>

theorem orientation_reported_on_change_witness:
  "map_option uart
     (run (samples [(1, g_vector 0 0 1), (2, g_vector 0 0 1), (3, g_vector 0 0 (- 1)),
                    (4, g_vector 0 0 0), (5, g_vector 0 0 0)]) example_start)
   = Some [Orientation FACE_UP, Orientation FACE_DOWN, Orientation TWR_DICE_FACE_UNKNOWN]"
  using orientation_reported_on_change [of example_start _ _ _
      "[(1, g_vector 0 0 1), (2, g_vector 0 0 1), (3, g_vector 0 0 (- 1)),
        (4, g_vector 0 0 0), (5, g_vector 0 0 0)]"]
  by (simp add: example_threshold example_faces example_start_orientation g_vector_def)

lemma orientations_append: "orientations (xs @ ys) = orientations xs @ orientations ys"
  by (induction xs rule: orientations.induct) simp_all

lemma orientations_sprintf:
  "sprintf_and_write m s = Some s' \<Longrightarrow> (\<And>f. m \<noteq> Orientation f) \<Longrightarrow>
     orientations (uart s') = orientations (uart s) \<and> last_face s' = last_face s"
  by (cases m) (auto dest!: sprintf_and_write_Some simp: orientations_append)

lemma orientation_inv_lis2dh12:
  assumes "lis2dh12_event_handler e r s = Some s'" "orientation_inv s"
  shows "orientation_inv s'"
proof (cases "e = TWR_LIS2DH12_EVENT_UPDATE \<and> r \<noteq> None")
  case True
  then obtain v where "e = TWR_LIS2DH12_EVENT_UPDATE" "r = Some v" by auto
  with assms show ?thesis
    by (auto simp: orientation_inv_def lis2dh12_update_step orientations_append hd_append
        split: if_splits)
next
  case False
  then have "lis2dh12_event_handler e r s = Some s"
    by (auto simp: lis2dh12_event_handler_def)
  with assms show ?thesis by simp
qed

lemma orientation_inv_dispatch:
  assumes "dispatch now e s = Some s'" "orientation_inv s"
  shows "orientation_inv s'"
proof (cases e)
  case (Lis2dh12_event b r)
  with assms show ?thesis by (auto intro: orientation_inv_lis2dh12)
next
  case (Button_event b)
  with assms show ?thesis
    by (cases b)
      (auto simp: orientation_inv_def button_steps orientations_append
        dest!: sprintf_and_write_Some split: if_splits)
next
  case (Battery_event b r)
  with assms show ?thesis
    by (auto simp: orientation_inv_def battery_event_handler_def orientations_append
        dest!: sprintf_and_write_Some split: option.splits if_splits)
next
  case (Tmp112_event b r later)
  with assms show ?thesis
    by (auto simp: orientation_inv_def tmp112_event_handler_def Let_def orientations_append
        dest!: sprintf_and_write_Some split: option.splits if_splits)
next
  case (Task_due i)
  with assms show ?thesis
    by (auto simp: orientation_inv_def run_task_frame)
qed

lemma orientation_inv_run:
  "run evs s = Some s' \<Longrightarrow> orientation_inv s \<Longrightarrow> orientation_inv s'"
proof (induction evs arbitrary: s)
  case Nil
  then show ?case by simp
next
  case (Cons a evs)
  obtain t e where a: "a = (t, e)" by (cases a)
  from Cons.prems(1) a obtain s1 where s1: "dispatch t e s = Some s1"
    and rest: "run evs s1 = Some s'"
    by (auto split: option.splits)
  from s1 Cons.prems(2) have "orientation_inv s1" by (rule orientation_inv_dispatch)
  with rest show ?case by (rule Cons.IH)
qed

lemma orientation_inv_start: "orientation_inv (application_init p now (startup p))"
  by (simp add: orientation_inv_def start_unpublished)

text \<open>
  C9: \<open>last_face\<close> starts as Unknown. In a state reached from \<open>application_init\<close> where
  no orientation has been written yet, a sample that the dice classifies as Unknown
  writes nothing; and the first orientation ever written is not Unknown.
\<close>

theorem first_orientation_is_a_face:
  "last_face (application_init p t0 (startup p)) = TWR_DICE_FACE_UNKNOWN
   \<and> (run evs (application_init p t0 (startup p)) = Some s \<longrightarrow>
        (orientations (uart s) = [] \<and> sample_face s r = TWR_DICE_FACE_UNKNOWN \<longrightarrow>
           map_option uart (lis2dh12_event_handler TWR_LIS2DH12_EVENT_UPDATE (Some r) s)
             = Some (uart s))
        \<and> (orientations (uart s) = f # fs \<longrightarrow> f \<noteq> TWR_DICE_FACE_UNKNOWN))"
proof -
  have "orientation_inv s" if "run evs (application_init p t0 (startup p)) = Some s"
    using that orientation_inv_start by (rule orientation_inv_run)
  then show ?thesis
    by (auto simp: orientation_inv_def start_unpublished lis2dh12_update_step)
qed

text \<open>
  On the example configuration: the zero vector first writes nothing; zero, +1g on Z,
  zero writes Up and then Unknown, and the first of them is a face.
\<close>

theorem first_orientation_is_a_face_witness:
  "map_option (orientations \<circ> uart) (run (samples [(1, g_vector 0 0 0)]) example_start) = Some []
   \<and> map_option (orientations \<circ> uart)
       (run (samples [(1, g_vector 0 0 0), (2, g_vector 0 0 1), (3, g_vector 0 0 0)])
          example_start) = Some [FACE_UP, TWR_DICE_FACE_UNKNOWN]
   \<and> FACE_UP \<noteq> TWR_DICE_FACE_UNKNOWN"
proof -
  have start: "run [] (application_init example_params 0 (startup example_params))
      = Some example_start"
    by (simp add: example_start_def)
  from first_orientation_is_a_face [of example_params 0 "[]" example_start "g_vector 0 0 0"]
    start
  have a: "map_option uart (run (samples [(1, g_vector 0 0 0)]) example_start) = Some []"
    by (auto simp: sample_face_def example_threshold example_faces example_start_orientation
        g_vector_def split: option.splits)
  obtain s' where s': "run (samples [(1, g_vector 0 0 0), (2, g_vector 0 0 1),
      (3, g_vector 0 0 0)]) example_start = Some s'"
    by (simp add: lis2dh12_update_step)
  have b: "orientations (uart s') = [FACE_UP, TWR_DICE_FACE_UNKNOWN]"
    using samples_run [of "[(1, g_vector 0 0 0), (2, g_vector 0 0 1), (3, g_vector 0 0 0)]"
        example_start] s'
    by (simp add: example_threshold example_faces example_start_orientation g_vector_def)
  from first_orientation_is_a_face [of example_params 0
      "samples [(1, g_vector 0 0 0), (2, g_vector 0 0 1), (3, g_vector 0 0 0)]" s' _ FACE_UP
      "[TWR_DICE_FACE_UNKNOWN]"] s' b
  have c: "FACE_UP \<noteq> TWR_DICE_FACE_UNKNOWN"
    by (simp add: example_start_def)
  from a b c s' show ?thesis by (auto simp: option.map_comp [symmetric])
qed

subsection \<open>The button\<close>

lemma button_inputs_append:
  "button_inputs (xs @ ys) s =
     (case button_inputs xs s of None \<Rightarrow> None | Some s1 \<Rightarrow> button_inputs ys s1)"
  by (induction xs arbitrary: s) (auto split: option.splits)

lemma press_step:
  "phase (button s) = Idle \<Longrightarrow>
   twr_button_input t0 Press s =
     Some (s\<lparr>button := (button s)\<lparr>phase := Pressed,
                 hold_timer := Some (t0 + hold_time (button s))\<rparr>,
             button_hold_event := False, tick_start_button_press := t0\<rparr>)"
  by (simp add: twr_button_input_def press_event_step Let_def)

lemma early_polls:
  assumes "phase (button s) = Pressed" "hold_timer (button s) = Some due"
    "\<forall>t \<in> set ts. t < due"
  shows "button_inputs (hold_polls ts) s = Some s"
  using assms
  by (induction ts) (auto simp: twr_button_input_def Let_def)

lemma late_polls:
  assumes "phase (button s) = HeldReported"
  shows "button_inputs (hold_polls ts) s = Some s"
  using assms
  by (induction ts) (auto simp: twr_button_input_def Let_def)

lemma click_release_step:
  "phase (button s) = Pressed \<Longrightarrow> \<not> button_hold_event s \<Longrightarrow>
   twr_button_input t1 Release s =
     Some (s\<lparr>button := (button s)\<lparr>phase := Idle, hold_timer := None\<rparr>,
             led := led s @ [100],
             button_click_count := button_click_count s + 1,
             uart := uart s @ [Button (uint (button_click_count s + 1))]\<rparr>)"
  by (simp add: twr_button_input_def button_steps Let_def)

lemma hold_fires_step:
  "phase (button s) = Pressed \<Longrightarrow> hold_timer (button s) = Some due \<Longrightarrow> due \<le> t1 \<Longrightarrow>
   twr_button_input t1 Hold_timer s =
     Some (s\<lparr>button := (button s)\<lparr>phase := HeldReported, hold_timer := None\<rparr>,
             led := led s @ [250],
             button_hold_count := button_hold_count s + 1,
             uart := uart s @ [Button_hold (uint (button_hold_count s + 1))],
             button_hold_event := True\<rparr>)"
  by (simp add: twr_button_input_def button_steps Let_def)

lemma hold_release_step:
  "phase (button s) = HeldReported \<Longrightarrow> button_hold_event s \<Longrightarrow>
   twr_button_input t2 Release s =
     sprintf_and_write
       (Button_hold_duration (sint (ucast (t2 - tick_start_button_press s) :: 32 word)))
       (s\<lparr>button := (button s)\<lparr>phase := Idle, hold_timer := None\<rparr>\<rparr>)"
  by (simp add: twr_button_input_def button_steps Let_def)

text \<open>
  C4: from an idle button, a Press at \<open>t0\<close> and a Release at \<open>t1\<close>, with the hold timer
  looked at only at ticks before it is due (\<open>t0\<close> plus the hold threshold) in between,
  write exactly one message, the click with the incremented click counter; the hold
  counter is unchanged and no hold or hold duration message is written. A RELEASE
  event with the hold flag clear leaves the state as it is.
\<close>

theorem short_press_is_one_click:
  assumes "phase (button s) = Idle"
    and "\<forall>t \<in> set polls. t < t0 + hold_time (button s)"
  shows "(let r = button_inputs ((t0, Press) # hold_polls polls @ [(t1, Release)]) s
          in map_option uart r = Some (uart s @ [Button (uint (button_click_count s + 1))])
             \<and> map_option button_click_count r = Some (button_click_count s + 1)
             \<and> map_option button_hold_count r = Some (button_hold_count s)
             \<and> map_option (\<lambda>s'. phase (button s')) r = Some Idle)
         \<and> (\<not> button_hold_event s \<longrightarrow>
               button_event_handler t1 TWR_BUTTON_EVENT_RELEASE s = Some s)"
proof -
  let ?s1 = "s\<lparr>button := (button s)\<lparr>phase := Pressed,
                 hold_timer := Some (t0 + hold_time (button s))\<rparr>,
             button_hold_event := False, tick_start_button_press := t0\<rparr>"
  have press: "twr_button_input t0 Press s = Some ?s1"
    using assms(1) by (rule press_step)
  have polls: "button_inputs (hold_polls polls) ?s1 = Some ?s1"
    using assms(2) by (intro early_polls [where due = "t0 + hold_time (button s)"]) simp_all
  have "button_inputs ((t0, Press) # hold_polls polls @ [(t1, Release)]) s =
      twr_button_input t1 Release ?s1"
    by (simp add: press button_inputs_append polls split: option.splits)
  then show ?thesis
    by (simp add: Let_def click_release_step release_step)
qed

lemma example_button:
  "phase (button example_start) = Idle" "hold_time (button example_start) = 2000"
  "uart example_start = []" "button_hold_count example_start = 0"
  "button_click_count example_start = 0" "\<not> button_hold_event example_start"
  "tick_start_button_press example_start = 0"
  by (simp_all add: example_start_def example_params_def init_defs Let_def)

text \<open>
  On the example configuration (hold threshold 2000): Press at 0, the timer looked at
  at 100 and 1500, Release at 1999.
\<close>

theorem short_press_is_one_click_witness:
  "phase (button example_start) = Idle
   \<and> (100 :: twr_tick_t) < 0 + hold_time (button example_start)
   \<and> (1500 :: twr_tick_t) < 0 + hold_time (button example_start)
   \<and> map_option uart
       (button_inputs ((0, Press) # hold_polls [100, 1500] @ [(1999, Release)]) example_start)
       = Some [Button 1]
   \<and> map_option button_hold_count
        (button_inputs ((0, Press) # hold_polls [100, 1500] @ [(1999, Release)]) example_start)
       = Some 0"
proof -
  have polls: "\<forall>t \<in> set [100, 1500]. t < (0 :: twr_tick_t) + hold_time (button example_start)"
    by (simp add: example_button)
  from short_press_is_one_click [OF example_button(1) polls, of 1999] polls
  show ?thesis
    by (simp add: Let_def example_button)
qed

lemma duration_text_fits: "text_length (Button_hold_duration 9999999) = 31"
  by code_simp

lemma duration_text_long: "text_length (Button_hold_duration 10000000) = 32"
  by code_simp

lemmas duration_texts = duration_text_fits duration_text_long

text \<open>
  A hold written within the buffer: the hold message, then the duration, which is the
  difference of the ticks converted to \<open>int\<close>. The conversion keeps the difference
  when it is below \<open>2 ^ 31\<close>.
\<close>

lemma hold_duration_exact:
  fixes t0 t2 h :: twr_tick_t
  assumes nowrap: "unat t0 + unat h < 2 ^ 64"
    and fired: "t0 + h \<le> t2"
    and fits: "unat (t2 - t0) < 2 ^ 31"
  shows "sint (ucast (t2 - t0) :: 32 word) = int (unat t2) - int (unat t0)
         \<and> int (unat h) \<le> sint (ucast (t2 - t0) :: 32 word)"
proof -
  have sum: "unat (t0 + h) = unat t0 + unat h"
    using nowrap by (simp add: unat_word_ariths)
  with fired have le: "unat t0 + unat h \<le> unat t2"
    by (simp add: word_le_nat_alt)
  then have "t0 \<le> t2"
    by (simp add: word_le_nat_alt)
  then have diff: "unat (t2 - t0) = unat t2 - unat t0"
    by (rule unat_sub)
  from fits have "int (unat (t2 - t0)) < int (2 ^ 31)"
    by (simp only: of_nat_less_iff)
  then have small: "uint (t2 - t0) < 2 ^ 31"
    by simp
  have "sint (ucast (t2 - t0) :: 32 word) = signed_take_bit 31 (uint (t2 - t0))"
    by (simp add: signed_ucast_eq)
  also have "\<dots> = uint (t2 - t0)"
  proof (rule signed_take_bit_int_eq_self)
    have "- (2 ^ 31) \<le> (0 :: int)" by simp
    also have "0 \<le> uint (t2 - t0)" by (rule uint_nonnegative)
    finally show "- (2 ^ 31) \<le> uint (t2 - t0)" .
    show "uint (t2 - t0) < 2 ^ 31" by (rule small)
  qed
  also have "\<dots> = int (unat (t2 - t0))"
    by simp
  finally have "sint (ucast (t2 - t0) :: 32 word) = int (unat t2 - unat t0)"
    unfolding diff .
  with le show ?thesis
    by (simp only: of_nat_diff) linarith
qed

lemma button_inputs_Cons_Some:
  "twr_button_input t i s = Some s1 \<Longrightarrow> button_inputs ((t, i) # rest) s = button_inputs rest s1"
  by simp

lemma button_inputs_append_Some:
  "button_inputs xs s = Some s1 \<Longrightarrow> button_inputs (xs @ ys) s = button_inputs ys s1"
  by (simp add: button_inputs_append)

lemma button_inputs_single: "button_inputs [(t, i)] s = twr_button_input t i s"
  by (simp split: option.split)

lemma hold_then_release:
  assumes idle: "phase (button s) = Idle"
    and early: "\<forall>t \<in> set early. t < t0 + hold_time (button s)"
    and fire: "t0 + hold_time (button s) \<le> t1"
    and fits: "text_length (Button_hold_duration (sint (ucast (t2 - t0) :: 32 word))) < 32"
  shows "map_option uart
           (button_inputs ((t0, Press) # hold_polls early @ (t1, Hold_timer) # hold_polls late
              @ [(t2, Release)]) s)
         = Some (uart s @ [Button_hold (uint (button_hold_count s + 1)),
              Button_hold_duration (sint (ucast (t2 - t0) :: 32 word))])"
proof -
  define sp where "sp = s\<lparr>button := (button s)\<lparr>phase := Pressed,
                 hold_timer := Some (t0 + hold_time (button s))\<rparr>,
             button_hold_event := False, tick_start_button_press := t0\<rparr>"
  have press: "twr_button_input t0 Press s = Some sp"
    unfolding sp_def using idle by (rule press_step)
  have sp: "phase (button sp) = Pressed" "hold_timer (button sp) = Some (t0 + hold_time (button s))"
    "uart sp = uart s" "button_hold_count sp = button_hold_count s"
    "tick_start_button_press sp = t0"
    by (simp_all add: sp_def)
  have polls: "button_inputs (hold_polls early) sp = Some sp"
    using sp(1,2) early by (rule early_polls)
  define sh where "sh = sp\<lparr>button := (button sp)\<lparr>phase := HeldReported, hold_timer := None\<rparr>,
             led := led sp @ [250],
             button_hold_count := button_hold_count sp + 1,
             uart := uart sp @ [Button_hold (uint (button_hold_count sp + 1))],
             button_hold_event := True\<rparr>"
  have hold: "twr_button_input t1 Hold_timer sp = Some sh"
    unfolding sh_def using sp(1,2) fire by (rule hold_fires_step)
  have sh: "phase (button sh) = HeldReported" "button_hold_event sh"
    "tick_start_button_press sh = t0"
    "uart sh = uart s @ [Button_hold (uint (button_hold_count s + 1))]"
    by (simp_all add: sh_def sp)
  have later: "button_inputs (hold_polls late) sh = Some sh"
    using sh(1) by (rule late_polls)
  have "button_inputs ((t0, Press) # hold_polls early @ (t1, Hold_timer) # hold_polls late
      @ [(t2, Release)]) s
      = button_inputs (hold_polls early @ (t1, Hold_timer) # hold_polls late @ [(t2, Release)]) sp"
    using press by (rule button_inputs_Cons_Some)
  also have "\<dots> = button_inputs ((t1, Hold_timer) # hold_polls late @ [(t2, Release)]) sp"
    using polls by (rule button_inputs_append_Some)
  also have "\<dots> = button_inputs (hold_polls late @ [(t2, Release)]) sh"
    using hold by (rule button_inputs_Cons_Some)
  also have "\<dots> = button_inputs [(t2, Release)] sh"
    using later by (rule button_inputs_append_Some)
  also have "\<dots> = twr_button_input t2 Release sh"
    by (rule button_inputs_single)
  finally show ?thesis
    using fits sh
    by (simp add: hold_release_step sprintf_and_write_def twr_uart_write_def)
qed

text \<open>
  C5 fails on the code for a long hold. On the example configuration, with the press
  at tick 0 and the hold reported at tick 2000, a release at tick 10000000 formats
  \<open>Button_hold_duration: 10000000\<close> with its line end, 32 characters and the
  terminating zero, into \<open>char buffer[32]\<close>: the handler overruns the buffer and no
  hold duration is written. One tick earlier the text still fits and the duration
  9999999 is written. The same through the button driver.
\<close>

theorem long_hold_overruns_buffer:
  "run [(0, Button_event TWR_BUTTON_EVENT_PRESS), (2000, Button_event TWR_BUTTON_EVENT_HOLD),
        (10000000, Button_event TWR_BUTTON_EVENT_RELEASE)] example_start = None
   \<and> map_option uart
       (run [(0, Button_event TWR_BUTTON_EVENT_PRESS), (2000, Button_event TWR_BUTTON_EVENT_HOLD),
             (9999999, Button_event TWR_BUTTON_EVENT_RELEASE)] example_start)
       = Some [Button_hold 1, Button_hold_duration 9999999]
   \<and> button_inputs [(0, Press), (2000, Hold_timer), (10000000, Release)] example_start = None
   \<and> map_option uart
       (button_inputs [(0, Press), (2000, Hold_timer), (9999999, Release)] example_start)
       = Some [Button_hold 1, Button_hold_duration 9999999]
   \<and> text_length (Button_hold_duration 10000000) + 1 = 33"
  by (simp add: button_steps twr_button_input_def Let_def example_button duration_texts
      sprintf_and_write_def twr_uart_write_def)

end
